theory Spec2Isabelle
  imports Complex_Main
begin

section \<open>The call page of the WebRTC demo (src/app/page.tsx)\<close>

text \<open>
  The component \<open>Home\<close> keeps four pieces of React state (\<open>roomId\<close>, \<open>inCall\<close>,
  \<open>localStream\<close>, \<open>remoteStream\<close>) and two mutable references (\<open>ws.current\<close>,
  \<open>pc.current\<close>). Its handlers are modelled as functions on a \<open>session\<close> record that
  holds exactly these, the browser objects the handlers act on, and the list of calls the
  handlers make to the outside world, in program order.

  Conventions of the model:
  \<^item> A handler is a JavaScript closure. The React state it reads (\<open>roomId\<close>,
    \<open>localStream\<close>) is the value of the render that created it, so every handler takes
    a \<open>closure\<close> record with these two captured values; the references \<open>ws\<close> and
    \<open>pc\<close> are read from the session, as \<open>.current\<close> is.
  \<^item> An awaited browser call (\<open>getUserMedia\<close>, \<open>createOffer\<close>, \<open>createAnswer\<close>,
    \<open>setLocalDescription\<close>, \<open>setRemoteDescription\<close>, \<open>addIceCandidate\<close>) resolves or
    rejects as the browser decides; its outcome is an argument of the handler, and the
    theorems hold for every outcome.
  \<^item> A handler runs to its end before the next event is taken, awaited steps included.
  \<^item> \<open>new RTCPeerConnection\<close>, \<open>new WebSocket\<close> (constant arguments), \<open>addTrack\<close> on a
    connection just constructed, \<open>close\<close>, \<open>stop\<close>, \<open>send\<close>, \<open>alert\<close> and the console do not
    raise.
\<close>

subsection \<open>JavaScript values decoded from a frame\<close>

datatype jsval =
    JNull
  | JBool bool
  | JNum real
  | JStr string
  | JArr "jsval list"
  | JObj "(string \<times> jsval) list"

datatype exn = SyntaxError | TypeError

text \<open>The result of \<open>JSON.parse(message.data)\<close>: it raises \<open>SyntaxError\<close> or yields a value.\<close>

datatype frame = Malformed | Parsed jsval

text \<open>
  \<open>v.k\<close>: reading a property of \<open>null\<close> raises \<open>TypeError\<close>; a primitive or an array has
  none of the keys the page reads (\<open>type\<close>, \<open>payload\<close>, \<open>sdp\<close>, \<open>candidate\<close>,
  \<open>message\<close>), so the result is \<open>undefined\<close>, written \<open>None\<close>.
\<close>

fun get_prop :: "jsval \<Rightarrow> string \<Rightarrow> exn + jsval option" where
  "get_prop JNull k = Inl TypeError"
| "get_prop (JObj fs) k = Inr (map_of fs k)"
| "get_prop (JBool b) k = Inr None"
| "get_prop (JNum n) k = Inr None"
| "get_prop (JStr t) k = Inr None"
| "get_prop (JArr vs) k = Inr None"

text \<open>\<open>v?.k\<close>: \<open>undefined\<close> when \<open>v\<close> is \<open>undefined\<close> or \<open>null\<close>.\<close>

fun opt_prop :: "jsval option \<Rightarrow> string \<Rightarrow> jsval option" where
  "opt_prop None k = None"
| "opt_prop (Some JNull) k = None"
| "opt_prop (Some (JObj fs)) k = map_of fs k"
| "opt_prop (Some (JBool b)) k = None"
| "opt_prop (Some (JNum n)) k = None"
| "opt_prop (Some (JStr t)) k = None"
| "opt_prop (Some (JArr vs)) k = None"

text \<open>The truth value of \<open>if (v)\<close>.\<close>

fun truthy :: "jsval option \<Rightarrow> bool" where
  "truthy None = False"
| "truthy (Some JNull) = False"
| "truthy (Some (JBool b)) = b"
| "truthy (Some (JNum n)) = (n \<noteq> 0)"
| "truthy (Some (JStr t)) = (t \<noteq> [])"
| "truthy (Some (JArr vs)) = True"
| "truthy (Some (JObj fs)) = True"

subsection \<open>Browser objects\<close>

type_synonym track = nat

record media_stream =
  stream_tracks :: "track list"

datatype sdp_type = Offer | Answer

record description =
  desc_type :: sdp_type
  desc_sdp :: jsval

record peer_connection =
  pc_closed :: bool
  pc_currentRoomId :: string
  pc_senders :: "track list"
  pc_localDescription :: "description option"
  pc_remoteDescription :: "description option"
  pc_candidates :: "jsval list"

record websocket =
  ws_closed :: bool

text \<open>Every call a handler makes to the browser, the console or a React setter.\<close>

datatype effect =
    ConsoleLog string
  | ConsoleLogValue string "jsval option"
  | ConsoleError string
  | Alert jsval
  | GetUserMedia
  | TrackStop track
  | WsNew
  | WsSend jsval
  | WsClose
  | PcNew nat
  | PcClose nat
  | PcAddTrack nat track
  | PcCreateOffer nat
  | PcCreateAnswer nat
  | PcSetLocalDescription nat description
  | PcSetRemoteDescription nat description
  | PcAddIceCandidate nat jsval
  | SetRoomId string
  | SetInCall bool
  | SetLocalStream "media_stream option"
  | SetRemoteStream "media_stream option"

subsection \<open>The session\<close>

text \<open>
  \<open>pcs\<close> is every \<open>RTCPeerConnection\<close> the page has constructed, in order of
  construction; \<open>pc\<close> is \<open>pc.current\<close>, an index into \<open>pcs\<close>. \<open>stopped\<close> is the set of
  media tracks on which \<open>stop()\<close> has been called.
\<close>

record session =
  roomId :: string
  inCall :: bool
  localStream :: "media_stream option"
  remoteStream :: "media_stream option"
  ws :: "websocket option"
  pc :: "nat option"
  pcs :: "peer_connection list"
  stopped :: "track set"
  trace :: "effect list"

definition initial :: session where
  "initial = \<lparr>roomId = [], inCall = False, localStream = None, remoteStream = None,
     ws = None, pc = None, pcs = [], stopped = {}, trace = []\<rparr>"

record closure =
  c_roomId :: string
  c_localStream :: "media_stream option"

definition render :: "session \<Rightarrow> closure" where
  "render s = \<lparr>c_roomId = roomId s, c_localStream = localStream s\<rparr>"

text \<open>
  What the connectivity engine answers to the awaited calls of one handler:
  \<open>e_created\<close> is the text \<open>createOffer()\<close> or \<open>createAnswer()\<close> resolves with (\<open>None\<close>:
  it rejects); the flags say whether \<open>setLocalDescription\<close>, \<open>setRemoteDescription\<close>
  and \<open>new RTCIceCandidate\<close> followed by \<open>addIceCandidate\<close> succeed.
\<close>

record engine =
  e_created :: "string option"
  e_setLocal :: bool
  e_setRemote :: bool
  e_addCandidate :: bool

definition emit :: "effect \<Rightarrow> session \<Rightarrow> session" where
  "emit x s = s\<lparr>trace := trace s @ [x]\<rparr>"

fun modify :: "nat \<Rightarrow> ('a \<Rightarrow> 'a) \<Rightarrow> 'a list \<Rightarrow> 'a list" where
  "modify i f [] = []"
| "modify 0 f (x # xs) = f x # xs"
| "modify (Suc i) f (x # xs) = x # modify i f xs"

definition update_pc :: "nat \<Rightarrow> (peer_connection \<Rightarrow> peer_connection) \<Rightarrow> session \<Rightarrow> session" where
  "update_pc i f s = s\<lparr>pcs := modify i f (pcs s)\<rparr>"

text \<open>The four React setters (lines 25-28).\<close>

definition setRoomId :: "string \<Rightarrow> session \<Rightarrow> session" where
  "setRoomId r s = emit (SetRoomId r) (s\<lparr>roomId := r\<rparr>)"

definition setInCall :: "bool \<Rightarrow> session \<Rightarrow> session" where
  "setInCall b s = emit (SetInCall b) (s\<lparr>inCall := b\<rparr>)"

definition setLocalStream :: "media_stream option \<Rightarrow> session \<Rightarrow> session" where
  "setLocalStream m s = emit (SetLocalStream m) (s\<lparr>localStream := m\<rparr>)"

definition setRemoteStream :: "media_stream option \<Rightarrow> session \<Rightarrow> session" where
  "setRemoteStream m s = emit (SetRemoteStream m) (s\<lparr>remoteStream := m\<rparr>)"

subsection \<open>sendMessage (lines 57-62)\<close>

definition envelope :: "string \<Rightarrow> jsval \<Rightarrow> jsval" where
  "envelope ty payload = JObj [(''type'', JStr ty), (''payload'', payload)]"

definition sendMessage :: "string \<Rightarrow> jsval \<Rightarrow> session \<Rightarrow> session" where
  "sendMessage ty payload s =
     (case ws s of
        None \<Rightarrow> s
      | Some w \<Rightarrow> emit (WsSend (envelope ty payload)) s)"

subsection \<open>createPeerConnection (lines 64-86)\<close>

text \<open>Line 65, \<open>pc.current?.close()\<close>.\<close>

definition close_current :: "session \<Rightarrow> session" where
  "close_current s =
     (case pc s of
        None \<Rightarrow> s
      | Some i \<Rightarrow> emit (PcClose i) (update_pc i (\<lambda>p. p\<lparr>pc_closed := True\<rparr>) s))"

definition fresh_pc :: "string \<Rightarrow> peer_connection" where
  "fresh_pc currentRoomId = \<lparr>pc_closed = False, pc_currentRoomId = currentRoomId,
     pc_senders = [], pc_localDescription = None, pc_remoteDescription = None,
     pc_candidates = []\<rparr>"

text \<open>Lines 67-77: the new connection, with its two callbacks, becomes \<open>pc.current\<close>.\<close>

definition new_connection :: "string \<Rightarrow> session \<Rightarrow> session" where
  "new_connection currentRoomId s =
     emit (PcNew (length (pcs s)))
       (s\<lparr>pc := Some (length (pcs s)), pcs := pcs s @ [fresh_pc currentRoomId]\<rparr>)"

text \<open>Lines 81-83, the body of the \<open>forEach\<close>.\<close>

definition addTrack :: "track \<Rightarrow> session \<Rightarrow> session" where
  "addTrack t s =
     (case pc s of
        None \<Rightarrow> s
      | Some i \<Rightarrow> emit (PcAddTrack i t) (update_pc i (\<lambda>p. p\<lparr>pc_senders := pc_senders p @ [t]\<rparr>) s))"

definition attach :: "closure \<Rightarrow> session \<Rightarrow> session" where
  "attach c s =
     (case c_localStream c of
        None \<Rightarrow> s
      | Some st \<Rightarrow> fold addTrack (stream_tracks st) s)"

definition createPeerConnection :: "closure \<Rightarrow> string \<Rightarrow> session \<Rightarrow> session" where
  "createPeerConnection c currentRoomId s = attach c (new_connection currentRoomId (close_current s))"

text \<open>
  Lines 69-73, the callback installed on the connection. \<open>event.candidate\<close> is an
  \<open>RTCIceCandidate\<close> object or \<open>null\<close> (\<open>None\<close>); line 70 tests its truth value.
\<close>

definition onicecandidate :: "string \<Rightarrow> jsval option \<Rightarrow> session \<Rightarrow> session" where
  "onicecandidate currentRoomId candidate s =
     (case candidate of
        None \<Rightarrow> s
      | Some cand \<Rightarrow>
          if truthy (Some cand)
          then sendMessage ''candidate''
                 (JObj [(''id'', JStr currentRoomId), (''candidate'', cand)]) s
          else s)"

text \<open>Lines 75-77; \<open>event.streams[0]\<close> of an empty array is \<open>undefined\<close>.\<close>

definition ontrack :: "media_stream list \<Rightarrow> session \<Rightarrow> session" where
  "ontrack streams s =
     setRemoteStream (case streams of [] \<Rightarrow> None | st # _ \<Rightarrow> Some st) s"

subsection \<open>The negotiation handlers (lines 128-172)\<close>

text \<open>What \<open>JSON.stringify\<close> makes of \<open>pc.current.localDescription\<close>.\<close>

definition type_name :: "sdp_type \<Rightarrow> string" where
  "type_name t = (case t of Offer \<Rightarrow> ''offer'' | Answer \<Rightarrow> ''answer'')"

definition description_json :: "description option \<Rightarrow> jsval" where
  "description_json d =
     (case d of
        None \<Rightarrow> JNull
      | Some x \<Rightarrow> JObj [(''type'', JStr (type_name (desc_type x))), (''sdp'', desc_sdp x)])"

definition localDescription_of :: "nat \<Rightarrow> session \<Rightarrow> description option" where
  "localDescription_of i s = (if i < length (pcs s) then pc_localDescription (pcs s ! i) else None)"

definition createOffer :: "closure \<Rightarrow> string \<Rightarrow> engine \<Rightarrow> session \<Rightarrow> session" where
  "createOffer c currentRoomId e s =
     (let s1 = createPeerConnection c currentRoomId (emit (ConsoleLog ''Creating offer...'') s)
      in case pc s1 of
           None \<Rightarrow> s1
         | Some i \<Rightarrow>
             (let s2 = emit (PcCreateOffer i) s1
              in case e_created e of
                   None \<Rightarrow> emit (ConsoleError ''Error creating offer:'') s2
                 | Some text \<Rightarrow>
                     (let offer = \<lparr>desc_type = Offer, desc_sdp = JStr text\<rparr>;
                          s3 = emit (PcSetLocalDescription i offer) s2
                      in if \<not> e_setLocal e
                         then emit (ConsoleError ''Error creating offer:'') s3
                         else
                           (let s4 = update_pc i (\<lambda>p. p\<lparr>pc_localDescription := Some offer\<rparr>) s3
                            in sendMessage ''offer''
                                 (JObj [(''id'', JStr currentRoomId),
                                        (''sdp'', description_json (localDescription_of i s4))])
                                 s4))))"

definition handleOffer :: "closure \<Rightarrow> jsval \<Rightarrow> string \<Rightarrow> engine \<Rightarrow> session \<Rightarrow> session" where
  "handleOffer c sdp currentRoomId e s =
     (let s1 = createPeerConnection c currentRoomId (emit (ConsoleLog ''Handling offer...'') s)
      in case pc s1 of
           None \<Rightarrow> s1
         | Some i \<Rightarrow>
             (let remote = \<lparr>desc_type = Offer, desc_sdp = sdp\<rparr>;
                  s2 = emit (PcSetRemoteDescription i remote) s1
              in if \<not> e_setRemote e
                 then emit (ConsoleError ''Error handling offer:'') s2
                 else
                   (let s3 = emit (PcCreateAnswer i)
                               (update_pc i (\<lambda>p. p\<lparr>pc_remoteDescription := Some remote\<rparr>) s2)
                    in case e_created e of
                         None \<Rightarrow> emit (ConsoleError ''Error handling offer:'') s3
                       | Some text \<Rightarrow>
                           (let answer = \<lparr>desc_type = Answer, desc_sdp = JStr text\<rparr>;
                                s4 = emit (PcSetLocalDescription i answer) s3
                            in if \<not> e_setLocal e
                               then emit (ConsoleError ''Error handling offer:'') s4
                               else
                                 (let s5 = update_pc i
                                             (\<lambda>p. p\<lparr>pc_localDescription := Some answer\<rparr>) s4
                                  in sendMessage ''answer''
                                       (JObj [(''id'', JStr currentRoomId),
                                              (''sdp'', description_json (localDescription_of i s5))])
                                       s5)))))"

definition handleAnswer :: "jsval \<Rightarrow> engine \<Rightarrow> session \<Rightarrow> session" where
  "handleAnswer sdp e s =
     (let s1 = emit (ConsoleLog ''Handling answer...'') s
      in case pc s1 of
           None \<Rightarrow> s1
         | Some i \<Rightarrow>
             (let remote = \<lparr>desc_type = Answer, desc_sdp = sdp\<rparr>;
                  s2 = emit (PcSetRemoteDescription i remote) s1
              in if e_setRemote e
                 then update_pc i (\<lambda>p. p\<lparr>pc_remoteDescription := Some remote\<rparr>) s2
                 else emit (ConsoleError ''Error handling answer:'') s2))"

definition handleCandidate :: "jsval \<Rightarrow> engine \<Rightarrow> session \<Rightarrow> session" where
  "handleCandidate candidate e s =
     (case pc s of
        None \<Rightarrow> s
      | Some i \<Rightarrow>
          (let s1 = emit (PcAddIceCandidate i candidate) s
           in if e_addCandidate e
              then update_pc i (\<lambda>p. p\<lparr>pc_candidates := pc_candidates p @ [candidate]\<rparr>) s1
              else emit (ConsoleError ''Error adding received ice candidate'') s1))"

subsection \<open>Hanging up (lines 174-187)\<close>

definition stop_track :: "track \<Rightarrow> session \<Rightarrow> session" where
  "stop_track t s = emit (TrackStop t) (s\<lparr>stopped := insert t (stopped s)\<rparr>)"

definition stop_tracks :: "closure \<Rightarrow> session \<Rightarrow> session" where
  "stop_tracks c s =
     (case c_localStream c of
        None \<Rightarrow> s
      | Some st \<Rightarrow> fold stop_track (stream_tracks st) s)"

definition close_channel :: "session \<Rightarrow> session" where
  "close_channel s =
     (case ws s of
        None \<Rightarrow> s
      | Some w \<Rightarrow> emit WsClose (s\<lparr>ws := Some (w\<lparr>ws_closed := True\<rparr>)\<rparr>))"

text \<open>Lines 183-186.\<close>

definition reset_state :: "session \<Rightarrow> session" where
  "reset_state s = setRoomId [] (setRemoteStream None (setLocalStream None (setInCall False s)))"

definition handleHangUp :: "closure \<Rightarrow> session \<Rightarrow> session" where
  "handleHangUp c s = reset_state (close_current (close_channel (stop_tracks c s)))"

definition handlePeerLeft :: "closure \<Rightarrow> session \<Rightarrow> session" where
  "handlePeerLeft c s = handleHangUp c (emit (Alert (JStr ''The other user has left the room.'')) s)"

text \<open>The cleanup of lines 50-55, run when the component is unmounted.\<close>

definition cleanup :: "session \<Rightarrow> session" where
  "cleanup s = close_current (close_channel s)"

subsection \<open>Joining (lines 88-124)\<close>

text \<open>The callback of lines 100-103.\<close>

definition ws_onopen :: "closure \<Rightarrow> session \<Rightarrow> session" where
  "ws_onopen c s =
     sendMessage ''join_room'' (JObj [(''id'', JStr (c_roomId c))])
       (emit (ConsoleLog ''Connected to signaling server'') s)"

text \<open>
  The callback of lines 105-120. Nothing in it catches what \<open>JSON.parse\<close> or the read of
  \<open>data.type\<close> raises, so the callback itself ends with the exception.
\<close>

definition ws_onmessage :: "closure \<Rightarrow> frame \<Rightarrow> engine \<Rightarrow> session \<Rightarrow> exn + session" where
  "ws_onmessage c fr e s =
     (case fr of
        Malformed \<Rightarrow> Inl SyntaxError
      | Parsed data \<Rightarrow>
          (case get_prop data ''type'' of
             Inl x \<Rightarrow> Inl x
           | Inr ty \<Rightarrow>
               (let s1 = emit (ConsoleLogValue ''Received message:'' ty) s;
                    payload = (case get_prop data ''payload'' of Inl x \<Rightarrow> None | Inr p \<Rightarrow> p)
                in if ty = Some (JStr ''peer_joined'') then
                     Inr (createOffer c (c_roomId c) e s1)
                   else if ty = Some (JStr ''offer'') then
                     (case opt_prop payload ''sdp'' of
                        None \<Rightarrow> Inr s1
                      | Some sdp \<Rightarrow>
                          if truthy (Some sdp) then Inr (handleOffer c sdp (c_roomId c) e s1)
                          else Inr s1)
                   else if ty = Some (JStr ''answer'') then
                     (case opt_prop payload ''sdp'' of
                        None \<Rightarrow> Inr s1
                      | Some sdp \<Rightarrow>
                          if truthy (Some sdp) then Inr (handleAnswer sdp e s1) else Inr s1)
                   else if ty = Some (JStr ''candidate'') then
                     (case opt_prop payload ''candidate'' of
                        None \<Rightarrow> Inr s1
                      | Some cand \<Rightarrow>
                          if truthy (Some cand) then Inr (handleCandidate cand e s1) else Inr s1)
                   else if ty = Some (JStr ''peer_left'') then
                     Inr (handlePeerLeft c s1)
                   else if ty = Some (JStr ''error'') then
                     (case opt_prop payload ''message'' of
                        None \<Rightarrow> Inr (handleHangUp c s1)
                      | Some m \<Rightarrow>
                          if truthy (Some m) then Inr (handleHangUp c (emit (Alert m) s1))
                          else Inr (handleHangUp c s1))
                   else Inr s1)))"

text \<open>
  \<open>handleJoinRoom\<close>: \<open>media\<close> is what \<open>getUserMedia\<close> resolves with (\<open>None\<close>: it rejects).
  The two callbacks it installs on the socket are \<open>ws_onopen\<close> and \<open>ws_onmessage\<close> with
  this same closure.
\<close>

definition open_channel :: "session \<Rightarrow> session" where
  "open_channel s = emit WsNew (s\<lparr>ws := Some \<lparr>ws_closed = False\<rparr>\<rparr>)"

definition handleJoinRoom :: "closure \<Rightarrow> media_stream option \<Rightarrow> session \<Rightarrow> session" where
  "handleJoinRoom c media s =
     (if c_roomId c = [] then emit (Alert (JStr ''Please enter a Room ID.'')) s
      else
        (let s1 = emit GetUserMedia s
         in case media of
              None \<Rightarrow> emit (ConsoleError ''Error accessing media devices.'') s1
            | Some stream \<Rightarrow> open_channel (setInCall True (setLocalStream (Some stream) s1))))"

subsection \<open>The page as an event-driven system\<close>

text \<open>
  An event is delivered only by an object that exists: the socket callbacks need a
  constructed socket, the candidate callback a constructed connection. An exception that
  leaves a callback is reported by the browser and the page goes on from the state the
  callback had reached.
\<close>

datatype event =
    RoomTyped string
  | JoinClicked closure "media_stream option"
  | HangUpClicked closure
  | SocketOpened closure
  | SocketMessage closure frame engine
  | CandidateFound nat "jsval option"
  | TrackAdded "media_stream list"
  | Unmounted

definition react :: "event \<Rightarrow> session \<Rightarrow> session" where
  "react ev s =
     (case ev of
        RoomTyped r \<Rightarrow> setRoomId r s
      | JoinClicked c media \<Rightarrow> handleJoinRoom c media s
      | HangUpClicked c \<Rightarrow> handleHangUp c s
      | SocketOpened c \<Rightarrow> (if ws s = None then s else ws_onopen c s)
      | SocketMessage c fr e \<Rightarrow>
          (if ws s = None then s
           else case ws_onmessage c fr e s of Inl x \<Rightarrow> s | Inr s' \<Rightarrow> s')
      | CandidateFound i cand \<Rightarrow>
          (if i < length (pcs s) then onicecandidate (pc_currentRoomId (pcs s ! i)) cand s
           else s)
      | TrackAdded streams \<Rightarrow> (if pcs s = [] then s else ontrack streams s)
      | Unmounted \<Rightarrow> cleanup s)"

fun run :: "event list \<Rightarrow> session \<Rightarrow> session" where
  "run [] s = s"
| "run (ev # evs) s = run evs (react ev s)"

subsection \<open>Observations\<close>

text \<open>The envelopes handed to \<open>ws.current.send\<close> so far, oldest first.\<close>

fun sent_of :: "effect list \<Rightarrow> jsval list" where
  "sent_of [] = []"
| "sent_of (WsSend v # xs) = v # sent_of xs"
| "sent_of (x # xs) = sent_of xs"

definition sent :: "session \<Rightarrow> jsval list" where
  "sent s = sent_of (trace s)"

text \<open>The connections that have been constructed and not closed.\<close>

definition live_handles :: "session \<Rightarrow> peer_connection list" where
  "live_handles s = filter (\<lambda>p. \<not> pc_closed p) (pcs s)"

definition captured_tracks :: "closure \<Rightarrow> track list" where
  "captured_tracks c = (case c_localStream c of None \<Rightarrow> [] | Some st \<Rightarrow> stream_tracks st)"

subsection \<open>The invariant of the references\<close>

text \<open>
  \<open>pc.current\<close> is the connection constructed last, every earlier connection is closed,
  and a connection exists only when a socket does.
\<close>

definition refs_inv :: "session \<Rightarrow> bool" where
  "refs_inv s = ((case pc s of
              None \<Rightarrow> pcs s = []
            | Some i \<Rightarrow> Suc i = length (pcs s) \<and> ws s \<noteq> None)
           \<and> list_all pc_closed (butlast (pcs s)))"

text \<open>
  The connections that are open after a list of calls, read off the calls alone: the
  constructor opens a connection, \<open>close\<close> closes it.
\<close>

fun track_open :: "effect \<Rightarrow> nat list \<Rightarrow> nat list" where
  "track_open (PcNew n) opn = opn @ [n]"
| "track_open (PcClose n) opn = removeAll n opn"
| "track_open x opn = opn"

definition open_after :: "effect list \<Rightarrow> nat list" where
  "open_after xs = fold track_open xs []"

text \<open>At no point of a list of calls is more than one connection open.\<close>

definition bounded :: "effect list \<Rightarrow> bool" where
  "bounded xs = (\<forall>k. length (open_after (take k xs)) \<le> 1)"

text \<open>
  The invariant of the record of calls: what it leaves open is nothing or \<open>pc.current\<close>,
  and it never had more than one connection open.
\<close>

definition trace_inv :: "session \<Rightarrow> bool" where
  "trace_inv s =
     ((open_after (trace s) = [] \<or> map Some (open_after (trace s)) = [pc s])
      \<and> bounded (trace s))"

subsection \<open>Views of a session used by the claims\<close>


text \<open>The socket is absent or closed.\<close>

definition channel_closed :: "session \<Rightarrow> bool" where
  "channel_closed s = (case ws s of None \<Rightarrow> True | Some w \<Rightarrow> ws_closed w)"

text \<open>The tracks of every stream that \<open>getUserMedia\<close> has handed to the page.\<close>

fun acquired :: "effect list \<Rightarrow> track list" where
  "acquired [] = []"
| "acquired (SetLocalStream (Some st) # xs) = stream_tracks st @ acquired xs"
| "acquired (x # xs) = acquired xs"


text \<open>
  Which resource a call gives up, and the order in which a list of calls gives the
  resources up (a run of calls on one resource counted once).
\<close>

datatype resource = RoomId | PeerConnectionHandle | LocalMediaHandle | SignalingChannel

fun released :: "effect \<Rightarrow> resource list" where
  "released (TrackStop t) = [LocalMediaHandle]"
| "released WsClose = [SignalingChannel]"
| "released (PcClose i) = [PeerConnectionHandle]"
| "released (SetRoomId r) = (if r = [] then [RoomId] else [])"
| "released x = []"

definition release_order :: "effect list \<Rightarrow> resource list" where
  "release_order xs = remdups_adj (concat (map released xs))"


text \<open>
  The page keeps no negotiation state of its own; the phase of a negotiation is read off
  \<open>pc.current\<close>. It is offering when the open current connection has a local offer and
  no remote description, answering when it has a remote offer and a local answer.
\<close>

definition current :: "session \<Rightarrow> peer_connection option" where
  "current s =
     (case pc s of
        None \<Rightarrow> None
      | Some i \<Rightarrow> if i < length (pcs s) then Some (pcs s ! i) else None)"

definition offering :: "session \<Rightarrow> bool" where
  "offering s =
     (case current s of
        None \<Rightarrow> False
      | Some p \<Rightarrow> \<not> pc_closed p
          \<and> map_option desc_type (pc_localDescription p) = Some Offer
          \<and> pc_remoteDescription p = None)"

definition answering :: "session \<Rightarrow> bool" where
  "answering s =
     (case current s of
        None \<Rightarrow> False
      | Some p \<Rightarrow> \<not> pc_closed p
          \<and> map_option desc_type (pc_remoteDescription p) = Some Offer
          \<and> map_option desc_type (pc_localDescription p) = Some Answer)"


text \<open>The candidates the connections have taken, by connection, then in order of arrival.\<close>

definition applied :: "session \<Rightarrow> jsval list" where
  "applied s = concat (map pc_candidates (pcs s))"

subsection \<open>A sample session\<close>

text \<open>
  The user types \<open>room1\<close> and presses Join; the closure of that render has the room id
  and no local stream yet. The camera is granted, the socket opens.
\<close>

definition alice :: closure where
  "alice = \<lparr>c_roomId = ''room1'', c_localStream = None\<rparr>"

definition camera :: media_stream where
  "camera = \<lparr>stream_tracks = [0, 1]\<rparr>"

definition join_events :: "event list" where
  "join_events = [RoomTyped ''room1'', JoinClicked alice (Some camera), SocketOpened alice]"

definition joined :: session where
  "joined = run join_events initial"

definition accepting :: engine where
  "accepting = \<lparr>e_created = Some ''v=0'', e_setLocal = True, e_setRemote = True,
     e_addCandidate = True\<rparr>"

text \<open>An engine that rejects every call.\<close>

definition rejecting :: engine where
  "rejecting = \<lparr>e_created = None, e_setLocal = False, e_setRemote = False,
     e_addCandidate = False\<rparr>"

definition message :: "string \<Rightarrow> (string \<times> jsval) list \<Rightarrow> frame" where
  "message ty payload = Parsed (JObj [(''type'', JStr ty), (''payload'', JObj payload)])"

text \<open>Then the relay announces a peer and the page sends its offer.\<close>

definition in_call :: session where
  "in_call = react (SocketMessage alice (message ''peer_joined'' []) accepting) joined"

section \<open>Auxiliary facts\<close>

lemma emit_fields [simp]:
  "roomId (emit x s) = roomId s" "inCall (emit x s) = inCall s"
  "localStream (emit x s) = localStream s" "remoteStream (emit x s) = remoteStream s"
  "ws (emit x s) = ws s" "pc (emit x s) = pc s" "pcs (emit x s) = pcs s"
  "stopped (emit x s) = stopped s" "trace (emit x s) = trace s @ [x]"
  by (simp_all add: emit_def)

lemma update_pc_fields [simp]:
  "roomId (update_pc i f s) = roomId s" "inCall (update_pc i f s) = inCall s"
  "localStream (update_pc i f s) = localStream s" "remoteStream (update_pc i f s) = remoteStream s"
  "ws (update_pc i f s) = ws s" "pc (update_pc i f s) = pc s"
  "pcs (update_pc i f s) = modify i f (pcs s)"
  "stopped (update_pc i f s) = stopped s" "trace (update_pc i f s) = trace s"
  by (simp_all add: update_pc_def)

lemma length_modify [simp]: "length (modify i f xs) = length xs"
  by (induction i f xs rule: modify.induct) simp_all

lemma modify_last [simp]: "modify (length xs) f (xs @ [x]) = xs @ [f x]"
  by (induction xs) simp_all

lemma modify_beyond [simp]: "length xs \<le> i \<Longrightarrow> modify i f xs = xs"
  by (induction i f xs rule: modify.induct) simp_all

lemma refs_inv_initial: "refs_inv initial"
  by (simp add: refs_inv_def initial_def)

lemma refs_inv_emit [simp]: "refs_inv (emit x s) = refs_inv s"
  by (simp add: refs_inv_def split: option.splits)

lemma refs_inv_SomeD:
  assumes "refs_inv s" "pc s = Some i"
  obtains ys p where "pcs s = ys @ [p]" "i = length ys" "list_all pc_closed ys" "ws s \<noteq> None"
proof -
  from assms have len: "Suc i = length (pcs s)" and w: "ws s \<noteq> None"
    and cl: "list_all pc_closed (butlast (pcs s))"
    by (simp_all add: refs_inv_def)
  from len have ne: "pcs s \<noteq> []" by auto
  then have "pcs s = butlast (pcs s) @ [last (pcs s)]" by simp
  moreover from len have "i = length (butlast (pcs s))" by simp
  ultimately show thesis using cl w that by blast
qed

lemma refs_inv_update_current:
  assumes "refs_inv s" "pc s = Some i"
  shows "refs_inv (update_pc i f s)"
proof -
  from assms obtain ys p where "pcs s = ys @ [p]" "i = length ys" "list_all pc_closed ys" "ws s \<noteq> None"
    by (rule refs_inv_SomeD)
  then show ?thesis using assms by (simp add: refs_inv_def)
qed

lemma live_close_current:
  assumes "refs_inv s"
  shows "live_handles (close_current s) = []"
proof (cases "pc s")
  case None
  with assms show ?thesis by (simp add: close_current_def live_handles_def refs_inv_def)
next
  case (Some i)
  with assms obtain ys p where "pcs s = ys @ [p]" "i = length ys" "list_all pc_closed ys"
    by (rule refs_inv_SomeD)
  with Some show ?thesis
    by (simp add: close_current_def live_handles_def list_all_iff)
qed

lemma refs_inv_live:
  assumes "refs_inv s"
  shows "length (live_handles s) \<le> 1"
proof (cases "pc s")
  case None
  with assms show ?thesis by (simp add: live_handles_def refs_inv_def)
next
  case (Some i)
  with assms obtain ys p where "pcs s = ys @ [p]" "i = length ys" "list_all pc_closed ys"
    by (rule refs_inv_SomeD)
  then show ?thesis
    by (simp add: live_handles_def list_all_iff)
qed

lemma refs_inv_close_current: "refs_inv s \<Longrightarrow> refs_inv (close_current s)"
  by (auto simp: close_current_def refs_inv_update_current split: option.splits)

lemma refs_inv_construct:
  assumes "refs_inv s" "ws s \<noteq> None"
  shows "refs_inv (new_connection r (close_current s))"
proof -
  have "live_handles (close_current s) = []" using assms(1) by (rule live_close_current)
  then have "list_all pc_closed (pcs (close_current s))"
    by (simp add: live_handles_def list_all_iff filter_empty_conv)
  moreover have "ws (close_current s) = ws s"
    by (simp add: close_current_def split: option.splits)
  ultimately show ?thesis using assms(2)
    by (simp add: refs_inv_def new_connection_def)
qed

lemma pc_addTrack [simp]: "pc (addTrack t s) = pc s"
  by (simp add: addTrack_def split: option.splits)

lemma refs_inv_addTrack: "refs_inv s \<Longrightarrow> refs_inv (addTrack t s)"
  by (auto simp: addTrack_def refs_inv_update_current split: option.splits)

lemma refs_inv_fold_addTrack: "refs_inv s \<Longrightarrow> refs_inv (fold addTrack ts s)"
  by (induction ts arbitrary: s) (simp_all add: refs_inv_addTrack)

lemma refs_inv_createPeerConnection:
  "refs_inv s \<Longrightarrow> ws s \<noteq> None \<Longrightarrow> refs_inv (createPeerConnection c r s)"
  by (simp add: createPeerConnection_def attach_def refs_inv_construct refs_inv_fold_addTrack
      split: option.splits)


lemma refs_inv_frame:
  "refs_inv s \<Longrightarrow> pc s' = pc s \<Longrightarrow> pcs s' = pcs s \<Longrightarrow> (ws s \<noteq> None \<Longrightarrow> ws s' \<noteq> None) \<Longrightarrow> refs_inv s'"
  by (auto simp: refs_inv_def split: option.splits)

lemma setter_fields [simp]:
  "pc (setRoomId r s) = pc s" "pcs (setRoomId r s) = pcs s" "ws (setRoomId r s) = ws s"
  "pc (setInCall b s) = pc s" "pcs (setInCall b s) = pcs s" "ws (setInCall b s) = ws s"
  "pc (setLocalStream m s) = pc s" "pcs (setLocalStream m s) = pcs s" "ws (setLocalStream m s) = ws s"
  "pc (setRemoteStream m s) = pc s" "pcs (setRemoteStream m s) = pcs s" "ws (setRemoteStream m s) = ws s"
  by (simp_all add: setRoomId_def setInCall_def setLocalStream_def setRemoteStream_def)

lemma sendMessage_fields [simp]:
  "pc (sendMessage ty p s) = pc s" "pcs (sendMessage ty p s) = pcs s" "ws (sendMessage ty p s) = ws s"
  by (simp_all add: sendMessage_def split: option.splits)

lemma refs_inv_sendMessage [simp]: "refs_inv (sendMessage ty p s) = refs_inv s"
  by (simp add: sendMessage_def split: option.splits)

lemma ws_createPeerConnection [simp]: "ws (createPeerConnection c r s) = ws s"
proof -
  have a: "ws (fold addTrack ts t) = ws t" for ts t
    by (induction ts arbitrary: t) (simp_all add: addTrack_def split: option.splits)
  show ?thesis
    by (simp add: createPeerConnection_def attach_def a new_connection_def close_current_def
        split: option.splits)
qed

lemma refs_inv_createOffer: "refs_inv s \<Longrightarrow> ws s \<noteq> None \<Longrightarrow> refs_inv (createOffer c r e s)"
proof -
  assume a: "refs_inv s" "ws s \<noteq> None"
  let ?s1 = "createPeerConnection c r (emit (ConsoleLog ''Creating offer...'') s)"
  have w1: "refs_inv ?s1" using a by (simp add: refs_inv_createPeerConnection)
  show ?thesis
    using w1 by (simp add: createOffer_def Let_def refs_inv_update_current split: option.splits)
qed

lemma refs_inv_handleOffer: "refs_inv s \<Longrightarrow> ws s \<noteq> None \<Longrightarrow> refs_inv (handleOffer c sdp r e s)"
proof -
  assume a: "refs_inv s" "ws s \<noteq> None"
  let ?s1 = "createPeerConnection c r (emit (ConsoleLog ''Handling offer...'') s)"
  have w1: "refs_inv ?s1" using a by (simp add: refs_inv_createPeerConnection)
  show ?thesis
    using w1 by (simp add: handleOffer_def Let_def refs_inv_update_current split: option.splits)
qed

lemma refs_inv_handleAnswer: "refs_inv s \<Longrightarrow> refs_inv (handleAnswer sdp e s)"
  by (simp add: handleAnswer_def Let_def refs_inv_update_current split: option.splits)

lemma refs_inv_handleCandidate: "refs_inv s \<Longrightarrow> refs_inv (handleCandidate cand e s)"
  by (simp add: handleCandidate_def Let_def refs_inv_update_current split: option.splits)

lemma stop_tracks_fields [simp]:
  "pc (stop_tracks c s) = pc s" "pcs (stop_tracks c s) = pcs s" "ws (stop_tracks c s) = ws s"
proof -
  have a: "pc (fold stop_track ts t) = pc t \<and> pcs (fold stop_track ts t) = pcs t
      \<and> ws (fold stop_track ts t) = ws t" for ts t
    by (induction ts arbitrary: t) (simp_all add: stop_track_def)
  show "pc (stop_tracks c s) = pc s" "pcs (stop_tracks c s) = pcs s" "ws (stop_tracks c s) = ws s"
    by (simp_all add: stop_tracks_def a split: option.splits)
qed

lemma close_channel_fields [simp]:
  "pc (close_channel s) = pc s" "pcs (close_channel s) = pcs s"
  "(ws (close_channel s) = None) = (ws s = None)"
  by (simp_all add: close_channel_def split: option.splits)

lemma refs_inv_handleHangUp: "refs_inv s \<Longrightarrow> refs_inv (handleHangUp c s)"
proof -
  assume a: "refs_inv s"
  have "refs_inv (close_channel (stop_tracks c s))"
    using a by (rule refs_inv_frame) simp_all
  then have "refs_inv (close_current (close_channel (stop_tracks c s)))"
    by (rule refs_inv_close_current)
  then show ?thesis
    unfolding handleHangUp_def reset_state_def by (rule refs_inv_frame) simp_all
qed

lemma refs_inv_handleJoinRoom: "refs_inv s \<Longrightarrow> refs_inv (handleJoinRoom c media s)"
  by (auto simp: handleJoinRoom_def Let_def open_channel_def elim!: refs_inv_frame split: option.splits)

lemma refs_inv_ws_onmessage:
  "refs_inv s \<Longrightarrow> ws s \<noteq> None \<Longrightarrow> ws_onmessage c fr e s = Inr s' \<Longrightarrow> refs_inv s'"
  by (auto simp: ws_onmessage_def Let_def handlePeerLeft_def
      refs_inv_createOffer refs_inv_handleOffer refs_inv_handleAnswer refs_inv_handleCandidate refs_inv_handleHangUp
      split: frame.splits sum.splits option.splits if_splits)

lemma refs_inv_cleanup: "refs_inv s \<Longrightarrow> refs_inv (cleanup s)"
proof -
  assume "refs_inv s"
  then have "refs_inv (close_channel s)" by (rule refs_inv_frame) simp_all
  then show ?thesis unfolding cleanup_def by (rule refs_inv_close_current)
qed

lemma refs_inv_react: "refs_inv s \<Longrightarrow> refs_inv (react ev s)"
  by (cases ev)
    (auto simp: react_def refs_inv_handleJoinRoom refs_inv_handleHangUp ws_onopen_def
      onicecandidate_def ontrack_def refs_inv_ws_onmessage refs_inv_cleanup
      elim: refs_inv_frame split: sum.splits option.splits)

lemma refs_inv_run: "refs_inv s \<Longrightarrow> refs_inv (run evs s)"
  by (induction evs arbitrary: s) (simp_all add: refs_inv_react)

lemmas page_defs =
  initial_def render_def emit_def update_pc_def setRoomId_def setInCall_def setLocalStream_def
  setRemoteStream_def envelope_def sendMessage_def close_current_def fresh_pc_def new_connection_def
  addTrack_def attach_def createPeerConnection_def onicecandidate_def ontrack_def type_name_def
  description_json_def localDescription_of_def createOffer_def handleOffer_def handleAnswer_def
  handleCandidate_def stop_track_def stop_tracks_def close_channel_def reset_state_def
  handleHangUp_def handlePeerLeft_def ws_onopen_def ws_onmessage_def open_channel_def
  handleJoinRoom_def react_def sent_def live_handles_def

lemma joined_eq:
  "joined = \<lparr>roomId = ''room1'', inCall = True, localStream = Some camera, remoteStream = None,
     ws = Some \<lparr>ws_closed = False\<rparr>, pc = None, pcs = [], stopped = {},
     trace = [SetRoomId ''room1'', GetUserMedia, SetLocalStream (Some camera), SetInCall True, WsNew,
            ConsoleLog ''Connected to signaling server'',
            WsSend (JObj [(''type'', JStr ''join_room''), (''payload'', JObj [(''id'', JStr ''room1'')])])]\<rparr>"
  by (simp add: joined_def join_events_def alice_def page_defs)

lemma sent_of_append [simp]: "sent_of (xs @ ys) = sent_of xs @ sent_of ys"
  by (induction xs rule: sent_of.induct) simp_all

lemma fold_addTrack:
  "pc s = Some (length ys) \<Longrightarrow> pcs s = ys @ [p] \<Longrightarrow>
   fold addTrack ts s =
     s\<lparr>pcs := ys @ [p\<lparr>pc_senders := pc_senders p @ ts\<rparr>],
       trace := trace s @ map (PcAddTrack (length ys)) ts\<rparr>"
proof (induction ts arbitrary: s p)
  case Nil
  then show ?case by simp
next
  case (Cons t ts)
  let ?p = "p\<lparr>pc_senders := pc_senders p @ [t]\<rparr>"
  have e: "addTrack t s = s\<lparr>pcs := ys @ [?p], trace := trace s @ [PcAddTrack (length ys) t]\<rparr>"
    using Cons.prems by (simp add: addTrack_def emit_def update_pc_def)
  have "pc (addTrack t s) = Some (length ys)" using Cons.prems by simp
  moreover have "pcs (addTrack t s) = ys @ [?p]" by (simp add: e)
  ultimately have "fold addTrack ts (addTrack t s) =
     (addTrack t s)\<lparr>pcs := ys @ [?p\<lparr>pc_senders := pc_senders ?p @ ts\<rparr>],
       trace := trace (addTrack t s) @ map (PcAddTrack (length ys)) ts\<rparr>"
    by (rule Cons.IH)
  then have "fold addTrack (t # ts) s =
     (addTrack t s)\<lparr>pcs := ys @ [?p\<lparr>pc_senders := pc_senders ?p @ ts\<rparr>],
       trace := trace (addTrack t s) @ map (PcAddTrack (length ys)) ts\<rparr>"
    by simp
  also have "\<dots> = s\<lparr>pcs := ys @ [p\<lparr>pc_senders := pc_senders p @ t # ts\<rparr>],
       trace := trace s @ map (PcAddTrack (length ys)) (t # ts)\<rparr>"
    by (simp add: e)
  finally show ?case .
qed

lemma length_pcs_close_current [simp]: "length (pcs (close_current s)) = length (pcs s)"
  by (simp add: close_current_def split: option.splits)

lemma createPeerConnection_eq:
  "createPeerConnection c r s =
     (close_current s)\<lparr>pc := Some (length (pcs s)),
        pcs := pcs (close_current s) @ [(fresh_pc r)\<lparr>pc_senders := captured_tracks c\<rparr>],
        trace := trace (close_current s) @ PcNew (length (pcs s)) # map (PcAddTrack (length (pcs s))) (captured_tracks c)\<rparr>"
proof -
  let ?t = "new_connection r (close_current s)"
  have a: "pc ?t = Some (length (pcs (close_current s)))" by (simp add: new_connection_def)
  have b: "pcs ?t = pcs (close_current s) @ [fresh_pc r]" by (simp add: new_connection_def)
  show ?thesis
  proof (cases "c_localStream c")
    case None
    then show ?thesis
      by (simp add: createPeerConnection_def attach_def captured_tracks_def new_connection_def emit_def fresh_pc_def)
  next
    case (Some st)
    then show ?thesis
      by (simp add: createPeerConnection_def attach_def captured_tracks_def fold_addTrack [OF a b])
         (simp add: new_connection_def emit_def fresh_pc_def)
  qed
qed

lemma offering_eq:
  "react (SocketMessage alice (message ''peer_joined'' []) accepting) joined =
     joined\<lparr>pc := Some 0,
       pcs := [\<lparr>pc_closed = False, pc_currentRoomId = ''room1'', pc_senders = [],
                pc_localDescription = Some \<lparr>desc_type = Offer, desc_sdp = JStr ''v=0''\<rparr>,
                pc_remoteDescription = None, pc_candidates = []\<rparr>],
       trace := trace joined @
         [ConsoleLogValue ''Received message:'' (Some (JStr ''peer_joined'')),
          ConsoleLog ''Creating offer...'', PcNew 0, PcCreateOffer 0,
          PcSetLocalDescription 0 \<lparr>desc_type = Offer, desc_sdp = JStr ''v=0''\<rparr>,
          WsSend (JObj [(''type'', JStr ''offer''), (''payload'', JObj [(''id'', JStr ''room1''),
            (''sdp'', JObj [(''type'', JStr ''offer''), (''sdp'', JStr ''v=0'')])])])]\<rparr>"
  by (simp add: joined_eq)
     (simp add: react_def ws_onmessage_def message_def alice_def accepting_def createOffer_def
       createPeerConnection_eq captured_tracks_def close_current_def fresh_pc_def Let_def
       emit_def update_pc_def sendMessage_def envelope_def description_json_def
       localDescription_of_def type_name_def)

lemma run_append: "run (xs @ ys) s = run ys (run xs s)"
  by (induction xs arbitrary: s) simp_all

lemma glare_eq:
  "run [SocketMessage alice (message ''peer_joined'' []) accepting,
        SocketMessage alice (message ''offer'' [(''sdp'', JStr ''v=1'')]) accepting] joined =
     joined\<lparr>pc := Some 1,
       pcs := [\<lparr>pc_closed = True, pc_currentRoomId = ''room1'', pc_senders = [],
                pc_localDescription = Some \<lparr>desc_type = Offer, desc_sdp = JStr ''v=0''\<rparr>,
                pc_remoteDescription = None, pc_candidates = []\<rparr>,
               \<lparr>pc_closed = False, pc_currentRoomId = ''room1'', pc_senders = [],
                pc_localDescription = Some \<lparr>desc_type = Answer, desc_sdp = JStr ''v=0''\<rparr>,
                pc_remoteDescription = Some \<lparr>desc_type = Offer, desc_sdp = JStr ''v=1''\<rparr>,
                pc_candidates = []\<rparr>],
       trace := trace joined @
         [ConsoleLogValue ''Received message:'' (Some (JStr ''peer_joined'')),
          ConsoleLog ''Creating offer...'', PcNew 0, PcCreateOffer 0,
          PcSetLocalDescription 0 \<lparr>desc_type = Offer, desc_sdp = JStr ''v=0''\<rparr>,
          WsSend (JObj [(''type'', JStr ''offer''), (''payload'', JObj [(''id'', JStr ''room1''),
            (''sdp'', JObj [(''type'', JStr ''offer''), (''sdp'', JStr ''v=0'')])])]),
          ConsoleLogValue ''Received message:'' (Some (JStr ''offer'')),
          ConsoleLog ''Handling offer...'', PcClose 0, PcNew 1,
          PcSetRemoteDescription 1 \<lparr>desc_type = Offer, desc_sdp = JStr ''v=1''\<rparr>,
          PcCreateAnswer 1,
          PcSetLocalDescription 1 \<lparr>desc_type = Answer, desc_sdp = JStr ''v=0''\<rparr>,
          WsSend (JObj [(''type'', JStr ''answer''), (''payload'', JObj [(''id'', JStr ''room1''),
            (''sdp'', JObj [(''type'', JStr ''answer''), (''sdp'', JStr ''v=0'')])])])]\<rparr>"
  by (simp add: offering_eq)
     (simp add: joined_eq react_def ws_onmessage_def message_def alice_def accepting_def handleOffer_def
       createPeerConnection_eq captured_tracks_def close_current_def fresh_pc_def Let_def
       emit_def update_pc_def sendMessage_def envelope_def description_json_def
       localDescription_of_def type_name_def)

lemma modify_modify [simp]: "modify i f (modify i g xs) = modify i (\<lambda>x. f (g x)) xs"
  by (induction i g xs rule: modify.induct) simp_all

lemma fold_stop_track:
  "fold stop_track ts s = s\<lparr>stopped := stopped s \<union> set ts, trace := trace s @ map TrackStop ts\<rparr>"
proof (induction ts arbitrary: s)
  case Nil
  show ?case by simp
next
  case (Cons t ts)
  show ?case by (simp add: Cons.IH) (simp add: stop_track_def emit_def)
qed

lemma stop_tracks_eq:
  "stop_tracks c s = s\<lparr>stopped := stopped s \<union> set (captured_tracks c),
      trace := trace s @ map TrackStop (captured_tracks c)\<rparr>"
  by (simp add: stop_tracks_def captured_tracks_def fold_stop_track split: option.splits)

lemma handleHangUp_eq:
  "handleHangUp c s =
     s\<lparr>roomId := [], inCall := False, localStream := None, remoteStream := None,
       ws := map_option (\<lambda>w. w\<lparr>ws_closed := True\<rparr>) (ws s),
       pcs := (case pc s of None \<Rightarrow> pcs s | Some i \<Rightarrow> modify i (\<lambda>p. p\<lparr>pc_closed := True\<rparr>) (pcs s)),
       stopped := stopped s \<union> set (captured_tracks c),
       trace := trace s @ map TrackStop (captured_tracks c)
         @ (case ws s of None \<Rightarrow> [] | Some w \<Rightarrow> [WsClose])
         @ (case pc s of None \<Rightarrow> [] | Some i \<Rightarrow> [PcClose i])
         @ [SetInCall False, SetLocalStream None, SetRemoteStream None, SetRoomId []]\<rparr>"
  by (simp add: handleHangUp_def stop_tracks_eq reset_state_def close_current_def close_channel_def
      setRoomId_def setInCall_def setLocalStream_def setRemoteStream_def emit_def update_pc_def
      split: option.splits)

lemma in_call_eq:
  "in_call = joined\<lparr>pc := Some 0,
       pcs := [\<lparr>pc_closed = False, pc_currentRoomId = ''room1'', pc_senders = [],
                pc_localDescription = Some \<lparr>desc_type = Offer, desc_sdp = JStr ''v=0''\<rparr>,
                pc_remoteDescription = None, pc_candidates = []\<rparr>],
       trace := trace joined @
         [ConsoleLogValue ''Received message:'' (Some (JStr ''peer_joined'')),
          ConsoleLog ''Creating offer...'', PcNew 0, PcCreateOffer 0,
          PcSetLocalDescription 0 \<lparr>desc_type = Offer, desc_sdp = JStr ''v=0''\<rparr>,
          WsSend (JObj [(''type'', JStr ''offer''), (''payload'', JObj [(''id'', JStr ''room1''),
            (''sdp'', JObj [(''type'', JStr ''offer''), (''sdp'', JStr ''v=0'')])])])]\<rparr>"
  unfolding in_call_def by (rule offering_eq)


lemma sent_of_addTracks [simp]: "sent_of (map (PcAddTrack n) ts) = []"
  by (induction ts) simp_all

lemma applied_modify:
  "(\<And>p. pc_candidates (f p) = pc_candidates p) \<Longrightarrow>
   concat (map pc_candidates (modify i f xs)) = concat (map pc_candidates xs)"
  by (induction i f xs rule: modify.induct) simp_all

lemma applied_close_current [simp]: "applied (close_current s) = applied s"
  by (simp add: applied_def close_current_def applied_modify split: option.splits)

lemma applied_createPeerConnection [simp]: "applied (createPeerConnection c r s) = applied s"
proof -
  have "applied (createPeerConnection c r s) = applied (close_current s)"
    by (simp add: createPeerConnection_eq applied_def fresh_pc_def)
  then show ?thesis by simp
qed

lemma applied_emit [simp]: "applied (emit x s) = applied s"
  by (simp add: applied_def)

lemma applied_sendMessage [simp]: "applied (sendMessage ty p s) = applied s"
  by (simp add: applied_def)

lemma applied_update_pc:
  "(\<And>p. pc_candidates (f p) = pc_candidates p) \<Longrightarrow> applied (update_pc i f s) = applied s"
  by (simp add: applied_def applied_modify)

lemma applied_createOffer: "applied (createOffer c r e s) = applied s"
  by (simp add: createOffer_def Let_def applied_update_pc split: option.splits)

lemma applied_handleOffer: "applied (handleOffer c sdp r e s) = applied s"
  by (simp add: handleOffer_def Let_def applied_update_pc split: option.splits)

lemma applied_handleAnswer: "applied (handleAnswer sdp e s) = applied s"
  by (simp add: handleAnswer_def Let_def applied_update_pc split: option.splits)

lemma close_current_fields [simp]:
  "roomId (close_current s) = roomId s" "inCall (close_current s) = inCall s"
  "localStream (close_current s) = localStream s" "remoteStream (close_current s) = remoteStream s"
  "ws (close_current s) = ws s" "pc (close_current s) = pc s"
  "stopped (close_current s) = stopped s"
  "trace (close_current s) = trace s @ (case pc s of None \<Rightarrow> [] | Some i \<Rightarrow> [PcClose i])"
  by (simp_all add: close_current_def split: option.splits)

lemma modify_append_last: "i = length xs \<Longrightarrow> modify i f (xs @ [x]) = xs @ [f x]"
  by simp

lemma sent_of_close [simp]: "sent_of (case p of None \<Rightarrow> [] | Some i \<Rightarrow> [PcClose i]) = []"
  by (cases p) simp_all

lemma createOffer_sent:
  assumes "ws s \<noteq> None"
  shows "sent (createOffer c r e s) = sent s @
           (case e_created e of
              None \<Rightarrow> []
            | Some t \<Rightarrow>
                if e_setLocal e
                then [JObj [(''type'', JStr ''offer''),
                            (''payload'', JObj [(''id'', JStr r),
                               (''sdp'', JObj [(''type'', JStr ''offer''), (''sdp'', JStr t)])])]]
                else [])"
  using assms
  by (cases "e_created e")
     (auto simp: createOffer_def Let_def sendMessage_def envelope_def description_json_def
       localDescription_of_def type_name_def createPeerConnection_eq fresh_pc_def sent_def
       emit_def update_pc_def modify_append_last nth_append)

lemma createOffer_current:
  "current (createOffer c r e s) =
     Some ((fresh_pc r)\<lparr>pc_senders := captured_tracks c,
        pc_localDescription :=
          (case e_created e of
             None \<Rightarrow> None
           | Some t \<Rightarrow> if e_setLocal e then Some \<lparr>desc_type = Offer, desc_sdp = JStr t\<rparr> else None)\<rparr>)"
  by (cases "e_created e"; cases "ws s")
     (auto simp: createOffer_def Let_def sendMessage_def current_def createPeerConnection_eq
       fresh_pc_def emit_def update_pc_def modify_append_last nth_append)

lemma handleOffer_sent:
  assumes "ws s \<noteq> None"
  shows "sent (handleOffer c sdp r e s) = sent s @
           (if e_setRemote e
            then case e_created e of
                   None \<Rightarrow> []
                 | Some t \<Rightarrow>
                     if e_setLocal e
                     then [JObj [(''type'', JStr ''answer''),
                                 (''payload'', JObj [(''id'', JStr r),
                                    (''sdp'', JObj [(''type'', JStr ''answer''), (''sdp'', JStr t)])])]]
                     else []
            else [])"
  using assms
  by (cases "e_created e")
     (auto simp: handleOffer_def Let_def sendMessage_def envelope_def description_json_def
       localDescription_of_def type_name_def createPeerConnection_eq fresh_pc_def sent_def
       emit_def update_pc_def modify_append_last nth_append)

lemma handleOffer_current:
  "current (handleOffer c sdp r e s) =
     Some ((fresh_pc r)\<lparr>pc_senders := captured_tracks c,
        pc_localDescription :=
          (if e_setRemote e
           then case e_created e of
                  None \<Rightarrow> None
                | Some t \<Rightarrow> if e_setLocal e then Some \<lparr>desc_type = Answer, desc_sdp = JStr t\<rparr> else None
           else None),
        pc_remoteDescription :=
          (if e_setRemote e then Some \<lparr>desc_type = Offer, desc_sdp = sdp\<rparr> else None)\<rparr>)"
  by (cases "e_created e"; cases "ws s")
     (auto simp: handleOffer_def Let_def sendMessage_def current_def createPeerConnection_eq
       fresh_pc_def emit_def update_pc_def modify_append_last nth_append)


lemma sent_emit_log [simp]: "sent (emit (ConsoleLogValue m v) s) = sent s"
  by (simp add: sent_def)

lemma acquired_append [simp]: "acquired (xs @ ys) = acquired xs @ acquired ys"
  by (induction xs rule: acquired.induct) simp_all

lemma acquired_TrackStop [simp]: "acquired (map TrackStop ts) = []"
  by (induction ts) simp_all

lemma acquired_hangup [simp]: "acquired (trace (handleHangUp c s)) = acquired (trace s)"
  by (simp add: handleHangUp_eq split: option.splits)




lemma open_after_snoc: "open_after (xs @ [x]) = track_open x (open_after xs)"
  by (simp add: open_after_def)

lemma open_after_Nil [simp]: "open_after [] = []"
  by (simp add: open_after_def)

lemma take_snoc: "take k (xs @ [x]) = (if k \<le> length xs then take k xs else xs @ [x])"
  by (cases "k \<le> length xs") simp_all

lemma bounded_Nil [simp]: "bounded []"
  by (simp add: bounded_def)

lemma bounded_snoc:
  "bounded (xs @ [x]) = (bounded xs \<and> length (track_open x (open_after xs)) \<le> 1)"
proof
  assume a: "bounded (xs @ [x])"
  have "length (open_after (take k xs)) \<le> 1" for k
  proof -
    have "take (min k (length xs)) (xs @ [x]) = take k xs"
      by (simp only: take_snoc) (simp add: min_def)
    moreover have "length (open_after (take (min k (length xs)) (xs @ [x]))) \<le> 1"
      using a unfolding bounded_def by blast
    ultimately show ?thesis by simp
  qed
  moreover have "length (open_after (take (Suc (length xs)) (xs @ [x]))) \<le> 1"
    using a unfolding bounded_def by blast
  then have "length (track_open x (open_after xs)) \<le> 1"
    by (simp add: open_after_snoc)
  ultimately show "bounded xs \<and> length (track_open x (open_after xs)) \<le> 1"
    by (simp add: bounded_def)
next
  assume b: "bounded xs \<and> length (track_open x (open_after xs)) \<le> 1"
  show "bounded (xs @ [x])"
    unfolding bounded_def
  proof
    fix k
    show "length (open_after (take k (xs @ [x]))) \<le> 1"
    proof (cases "k \<le> length xs")
      case True
      then have "take k (xs @ [x]) = take k xs" by (simp only: take_snoc if_True)
      with b show ?thesis by (simp add: bounded_def)
    next
      case False
      then have "take k (xs @ [x]) = xs @ [x]" by (simp only: take_snoc if_False)
      with b show ?thesis by (simp add: open_after_snoc)
    qed
  qed
qed

lemma trace_inv_initial: "trace_inv initial"
  by (simp add: trace_inv_def initial_def)

lemma trace_inv_frame:
  "trace_inv s \<Longrightarrow> pc s' = pc s \<Longrightarrow> trace s' = trace s \<Longrightarrow> trace_inv s'"
  by (simp add: trace_inv_def)

lemma trace_inv_length: "trace_inv s \<Longrightarrow> length (open_after (trace s)) \<le> 1"
proof -
  assume "trace_inv s"
  then have "open_after (trace s) = [] \<or> map Some (open_after (trace s)) = [pc s]"
    by (simp add: trace_inv_def)
  then show ?thesis
  proof
    assume "open_after (trace s) = []"
    then show ?thesis by simp
  next
    assume "map Some (open_after (trace s)) = [pc s]"
    then have "length (map Some (open_after (trace s))) = 1" by simp
    then show ?thesis by simp
  qed
qed

lemma trace_inv_emit:
  assumes "trace_inv s" and "track_open x (open_after (trace s)) = open_after (trace s)"
  shows "trace_inv (emit x s)"
proof -
  have "length (open_after (trace s)) \<le> 1" using assms(1) by (rule trace_inv_length)
  with assms show ?thesis
    by (simp add: trace_inv_def bounded_snoc open_after_snoc)
qed

lemma trace_inv_update_pc [simp]: "trace_inv (update_pc i f s) = trace_inv s"
  by (simp add: trace_inv_def)

lemma open_close_current:
  assumes "trace_inv s"
  shows "open_after (trace (close_current s)) = []"
proof (cases "pc s")
  case None
  with assms show ?thesis by (auto simp: trace_inv_def)
next
  case (Some i)
  from assms have "open_after (trace s) = [] \<or> open_after (trace s) = [i]"
    using Some by (auto simp: trace_inv_def)
  with Some show ?thesis by (auto simp: open_after_snoc)
qed

lemma trace_inv_close_current:
  assumes "trace_inv s"
  shows "trace_inv (close_current s)"
proof (cases "pc s")
  case None
  with assms show ?thesis by (simp add: close_current_def)
next
  case (Some i)
  have c: "open_after (trace (close_current s)) = []" using assms by (rule open_close_current)
  then have "track_open (PcClose i) (open_after (trace s)) = []"
    using Some by (simp add: open_after_snoc)
  with assms Some show ?thesis
    by (simp add: trace_inv_def bounded_snoc open_after_snoc)
qed

lemma trace_inv_new_connection:
  assumes "trace_inv s" and "open_after (trace s) = []"
  shows "trace_inv (new_connection r s)"
  using assms by (simp add: trace_inv_def new_connection_def bounded_snoc open_after_snoc)

lemma trace_inv_addTrack: "trace_inv s \<Longrightarrow> trace_inv (addTrack t s)"
  by (cases "pc s") (simp_all add: addTrack_def trace_inv_emit)

lemma trace_inv_fold_addTrack: "trace_inv s \<Longrightarrow> trace_inv (fold addTrack ts s)"
  by (induction ts arbitrary: s) (simp_all add: trace_inv_addTrack)

lemma trace_inv_createPeerConnection:
  assumes "trace_inv s"
  shows "trace_inv (createPeerConnection c r s)"
proof -
  have "trace_inv (close_current s)" using assms by (rule trace_inv_close_current)
  moreover have "open_after (trace (close_current s)) = []" using assms by (rule open_close_current)
  ultimately have "trace_inv (new_connection r (close_current s))"
    by (rule trace_inv_new_connection)
  then show ?thesis
    by (cases "c_localStream c")
       (simp_all add: createPeerConnection_def attach_def trace_inv_fold_addTrack)
qed


lemma trace_inv_fields [simp]:
  "trace_inv (s\<lparr>roomId := a\<rparr>) = trace_inv s"
  "trace_inv (s\<lparr>inCall := b\<rparr>) = trace_inv s"
  "trace_inv (s\<lparr>localStream := m\<rparr>) = trace_inv s"
  "trace_inv (s\<lparr>remoteStream := m\<rparr>) = trace_inv s"
  "trace_inv (s\<lparr>ws := w\<rparr>) = trace_inv s"
  "trace_inv (s\<lparr>stopped := st\<rparr>) = trace_inv s"
  by (simp_all add: trace_inv_def)

lemma trace_inv_sendMessage: "trace_inv s \<Longrightarrow> trace_inv (sendMessage ty p s)"
  by (cases "ws s") (simp_all add: sendMessage_def trace_inv_emit)

lemma trace_inv_createOffer: "trace_inv s \<Longrightarrow> trace_inv (createOffer c r e s)"
proof -
  assume a: "trace_inv s"
  let ?s1 = "createPeerConnection c r (emit (ConsoleLog ''Creating offer...'') s)"
  have "trace_inv ?s1" using a by (simp add: trace_inv_createPeerConnection trace_inv_emit)
  then show ?thesis
    by (simp add: createOffer_def Let_def trace_inv_emit trace_inv_sendMessage
        split: option.splits)
qed

lemma trace_inv_handleOffer: "trace_inv s \<Longrightarrow> trace_inv (handleOffer c sdp r e s)"
proof -
  assume a: "trace_inv s"
  let ?s1 = "createPeerConnection c r (emit (ConsoleLog ''Handling offer...'') s)"
  have "trace_inv ?s1" using a by (simp add: trace_inv_createPeerConnection trace_inv_emit)
  then show ?thesis
    by (simp add: handleOffer_def Let_def trace_inv_emit trace_inv_sendMessage
        split: option.splits)
qed

lemma trace_inv_handleAnswer: "trace_inv s \<Longrightarrow> trace_inv (handleAnswer sdp e s)"
  by (simp add: handleAnswer_def Let_def trace_inv_emit split: option.splits)

lemma trace_inv_handleCandidate: "trace_inv s \<Longrightarrow> trace_inv (handleCandidate cand e s)"
  by (simp add: handleCandidate_def Let_def trace_inv_emit split: option.splits)

lemma trace_inv_stop_tracks: "trace_inv s \<Longrightarrow> trace_inv (stop_tracks c s)"
proof -
  have f: "trace_inv t \<Longrightarrow> trace_inv (fold stop_track ts t)" for ts t
    by (induction ts arbitrary: t) (simp_all add: stop_track_def trace_inv_emit)
  assume "trace_inv s"
  then show ?thesis by (cases "c_localStream c") (simp_all add: stop_tracks_def f)
qed

lemma trace_inv_close_channel: "trace_inv s \<Longrightarrow> trace_inv (close_channel s)"
  by (cases "ws s") (simp_all add: close_channel_def trace_inv_emit)

lemma trace_inv_reset_state: "trace_inv s \<Longrightarrow> trace_inv (reset_state s)"
  by (simp add: reset_state_def setRoomId_def setInCall_def setLocalStream_def
      setRemoteStream_def trace_inv_emit)

lemma trace_inv_handleHangUp: "trace_inv s \<Longrightarrow> trace_inv (handleHangUp c s)"
  by (simp add: handleHangUp_def trace_inv_reset_state trace_inv_close_current
      trace_inv_close_channel trace_inv_stop_tracks)

lemma trace_inv_handleJoinRoom: "trace_inv s \<Longrightarrow> trace_inv (handleJoinRoom c media s)"
  by (cases media)
     (simp_all add: handleJoinRoom_def Let_def open_channel_def setInCall_def setLocalStream_def
       trace_inv_emit)

lemma trace_inv_ws_onmessage:
  "trace_inv s \<Longrightarrow> ws_onmessage c fr e s = Inr s' \<Longrightarrow> trace_inv s'"
  by (auto simp: ws_onmessage_def Let_def handlePeerLeft_def trace_inv_emit
      trace_inv_createOffer trace_inv_handleOffer trace_inv_handleAnswer
      trace_inv_handleCandidate trace_inv_handleHangUp
      split: frame.splits sum.splits option.splits if_splits)

lemma trace_inv_react: "trace_inv s \<Longrightarrow> trace_inv (react ev s)"
  by (cases ev)
     (auto simp: react_def setRoomId_def trace_inv_handleJoinRoom trace_inv_handleHangUp
       ws_onopen_def onicecandidate_def ontrack_def setRemoteStream_def cleanup_def
       trace_inv_emit trace_inv_sendMessage trace_inv_close_current trace_inv_close_channel
       trace_inv_ws_onmessage split: sum.splits option.splits)

lemma trace_inv_run: "trace_inv s \<Longrightarrow> trace_inv (run evs s)"
  by (induction evs arbitrary: s) (simp_all add: trace_inv_react)

section \<open>The claims\<close>

subsection \<open>C1: candidates that arrive early\<close>

text \<open>
  C1. A candidate delivered before any connection exists is lost: after the offer that
  follows has been handled and the remote description is set, no connection has taken
  the candidate.
\<close>

theorem early_candidate_counterexample:
  "applied (run [SocketMessage alice (message ''candidate'' [(''candidate'', JStr ''host 1'')]) accepting,
                 SocketMessage alice (message ''offer'' [(''sdp'', JStr ''v=1'')]) accepting] joined) = []
   \<and> map pc_remoteDescription
       (pcs (run [SocketMessage alice (message ''candidate'' [(''candidate'', JStr ''host 1'')]) accepting,
                  SocketMessage alice (message ''offer'' [(''sdp'', JStr ''v=1'')]) accepting] joined))
     = [Some \<lparr>desc_type = Offer, desc_sdp = JStr ''v=1''\<rparr>]"
  by (simp add: joined_eq react_def ws_onmessage_def message_def alice_def accepting_def
       handleCandidate_def handleOffer_def
       createPeerConnection_eq captured_tracks_def close_current_def fresh_pc_def Let_def
       emit_def update_pc_def sendMessage_def envelope_def description_json_def
       localDescription_of_def type_name_def applied_def)

text \<open>
  C1, as the code has it. \<open>handleCandidate\<close> keeps no buffer. Without a connection the
  candidate is dropped and the session is unchanged. With a connection the candidate is
  handed to \<open>addIceCandidate\<close> of \<open>pc.current\<close> at once, whether or not a remote
  description is set: when the engine accepts, it is the last candidate of that
  connection; when the engine refuses, the error is logged with \<open>console.error\<close> and
  the candidate is gone. Setting a description applies no candidate: \<open>handleAnswer\<close>,
  \<open>handleOffer\<close> and \<open>createOffer\<close> leave the candidates taken so far as they are.
\<close>

theorem candidate_handling:
  "(pc s = None \<longrightarrow> handleCandidate cand e s = s)
   \<and> (pc s = Some i \<and> e_addCandidate e \<longrightarrow>
        handleCandidate cand e s =
          s\<lparr>pcs := modify i (\<lambda>p. p\<lparr>pc_candidates := pc_candidates p @ [cand]\<rparr>) (pcs s),
            trace := trace s @ [PcAddIceCandidate i cand]\<rparr>)
   \<and> (pc s = Some i \<and> \<not> e_addCandidate e \<longrightarrow>
        handleCandidate cand e s =
          s\<lparr>trace := trace s @ [PcAddIceCandidate i cand,
                             ConsoleError ''Error adding received ice candidate'']\<rparr>)
   \<and> applied (handleAnswer sdp e s) = applied s
   \<and> applied (handleOffer c sdp r e s) = applied s
   \<and> applied (createOffer c r e s) = applied s"
  by (simp add: applied_createOffer applied_handleOffer applied_handleAnswer)
     (simp add: handleCandidate_def emit_def update_pc_def Let_def)

theorem candidate_handling_witness:
  "handleCandidate (JStr ''host 1'') accepting joined = joined
   \<and> handleCandidate (JStr ''host 1'') accepting in_call =
       in_call\<lparr>pcs := [\<lparr>pc_closed = False, pc_currentRoomId = ''room1'', pc_senders = [],
                pc_localDescription = Some \<lparr>desc_type = Offer, desc_sdp = JStr ''v=0''\<rparr>,
                pc_remoteDescription = None, pc_candidates = [JStr ''host 1'']\<rparr>],
          trace := trace in_call @ [PcAddIceCandidate 0 (JStr ''host 1'')]\<rparr>
   \<and> handleCandidate (JStr ''host 1'') rejecting in_call =
       in_call\<lparr>trace := trace in_call @ [PcAddIceCandidate 0 (JStr ''host 1''),
                             ConsoleError ''Error adding received ice candidate'']\<rparr>"
  using candidate_handling [of joined "JStr ''host 1''" accepting 0]
    candidate_handling [of in_call "JStr ''host 1''" accepting 0]
    candidate_handling [of in_call "JStr ''host 1''" rejecting 0]
  by (simp add: in_call_eq joined_eq accepting_def rejecting_def)

subsection \<open>C2: an answer outside a pending offer\<close>

text \<open>
  C2. An answer that arrives when the page has no connection at all finds it not
  offering; the session is unchanged, but nothing is reported: the only call is the
  \<open>console.log\<close> that opens every run of \<open>handleAnswer\<close>.
\<close>

theorem unexpected_answer_counterexample:
  "\<not> offering joined
   \<and> handleAnswer (JStr ''v=1'') accepting joined
       = joined\<lparr>trace := trace joined @ [ConsoleLog ''Handling answer...'']\<rparr>"
  by (simp add: offering_def current_def joined_eq handleAnswer_def emit_def)

text \<open>
  C2, as the code has it. \<open>handleAnswer\<close> has no check of the negotiation phase. Without a
  connection it returns at once: session unchanged, nothing reported. With a connection
  it asks that connection to take the answer as its remote description, whatever the
  phase; when the engine refuses, the error is logged with \<open>console.error\<close> and the
  session is otherwise unchanged; when the engine accepts, the remote description of
  \<open>pc.current\<close> is the answer and nothing else changes. It never sends an envelope.
\<close>

theorem answer_handling:
  "(pc s = None \<longrightarrow>
      handleAnswer sdp e s = s\<lparr>trace := trace s @ [ConsoleLog ''Handling answer...'']\<rparr>)
   \<and> (pc s = Some i \<and> \<not> e_setRemote e \<longrightarrow>
      handleAnswer sdp e s =
        s\<lparr>trace := trace s @ [ConsoleLog ''Handling answer...'',
                           PcSetRemoteDescription i \<lparr>desc_type = Answer, desc_sdp = sdp\<rparr>,
                           ConsoleError ''Error handling answer:'']\<rparr>)
   \<and> (pc s = Some i \<and> e_setRemote e \<longrightarrow>
      handleAnswer sdp e s =
        s\<lparr>pcs := modify i (\<lambda>p. p\<lparr>pc_remoteDescription :=
                                     Some \<lparr>desc_type = Answer, desc_sdp = sdp\<rparr>\<rparr>) (pcs s),
          trace := trace s @ [ConsoleLog ''Handling answer...'',
                           PcSetRemoteDescription i \<lparr>desc_type = Answer, desc_sdp = sdp\<rparr>]\<rparr>)
   \<and> sent (handleAnswer sdp e s) = sent s"
  by (auto simp: handleAnswer_def emit_def update_pc_def Let_def sent_def split: option.splits)

theorem answer_handling_witness:
  "handleAnswer (JStr ''v=1'') accepting in_call =
     in_call\<lparr>pcs := [\<lparr>pc_closed = False, pc_currentRoomId = ''room1'', pc_senders = [],
                pc_localDescription = Some \<lparr>desc_type = Offer, desc_sdp = JStr ''v=0''\<rparr>,
                pc_remoteDescription = Some \<lparr>desc_type = Answer, desc_sdp = JStr ''v=1''\<rparr>,
                pc_candidates = []\<rparr>],
        trace := trace in_call @ [ConsoleLog ''Handling answer...'',
                 PcSetRemoteDescription 0 \<lparr>desc_type = Answer, desc_sdp = JStr ''v=1''\<rparr>]\<rparr>
   \<and> handleAnswer (JStr ''v=1'') rejecting in_call =
     in_call\<lparr>trace := trace in_call @ [ConsoleLog ''Handling answer...'',
                 PcSetRemoteDescription 0 \<lparr>desc_type = Answer, desc_sdp = JStr ''v=1''\<rparr>,
                 ConsoleError ''Error handling answer:'']\<rparr>
   \<and> handleAnswer (JStr ''v=1'') accepting joined
       = joined\<lparr>trace := trace joined @ [ConsoleLog ''Handling answer...'']\<rparr>"
  using answer_handling [of in_call "JStr ''v=1''" accepting 0]
    answer_handling [of in_call "JStr ''v=1''" rejecting 0]
    answer_handling [of joined "JStr ''v=1''" accepting 0]
  by (simp add: in_call_eq joined_eq accepting_def rejecting_def)

subsection \<open>C3: a failed offer\<close>

text \<open>
  C3. When the engine rejects \<open>createOffer()\<close>, the connection that \<open>createOffer\<close> has just
  constructed is not released: it stays \<open>pc.current\<close> and stays open.
\<close>

theorem failed_offer_counterexample:
  "live_handles (createOffer alice ''room1'' rejecting joined) = [fresh_pc ''room1'']
   \<and> pc (createOffer alice ''room1'' rejecting joined) = Some 0"
  by (simp add: createOffer_def createPeerConnection_eq captured_tracks_def alice_def
      rejecting_def joined_eq close_current_def emit_def live_handles_def fresh_pc_def)

text \<open>
  C3, as the code has it. When \<open>createOffer()\<close> or \<open>setLocalDescription\<close> rejects, the
  handler catches the error and logs it with \<open>console.error\<close> as its last call, sends no
  envelope, and leaves the connection it has just constructed as \<open>pc.current\<close>, open,
  with the captured tracks attached; the connection that was current before has been
  closed. React state and the socket are unchanged.
\<close>

theorem failed_offer:
  "e_created e = None \<or> \<not> e_setLocal e \<Longrightarrow>
     pc (createOffer c r e s) = Some (length (pcs s))
     \<and> pcs (createOffer c r e s) =
         pcs (close_current s) @ [(fresh_pc r)\<lparr>pc_senders := captured_tracks c\<rparr>]
     \<and> \<not> pc_closed (last (pcs (createOffer c r e s)))
     \<and> last (trace (createOffer c r e s)) = ConsoleError ''Error creating offer:''
     \<and> sent (createOffer c r e s) = sent s
     \<and> roomId (createOffer c r e s) = roomId s
     \<and> inCall (createOffer c r e s) = inCall s
     \<and> localStream (createOffer c r e s) = localStream s
     \<and> remoteStream (createOffer c r e s) = remoteStream s
     \<and> ws (createOffer c r e s) = ws s"
  by (cases "e_created e"; cases "pc s")
     (simp_all add: createOffer_def createPeerConnection_eq Let_def emit_def close_current_def
       update_pc_def sent_def fresh_pc_def)

theorem failed_offer_witness:
  "(e_created rejecting = None \<or> \<not> e_setLocal rejecting)
   \<and> createOffer alice ''room1'' rejecting joined =
       joined\<lparr>pc := Some 0, pcs := [fresh_pc ''room1''],
         trace := trace joined @ [ConsoleLog ''Creating offer...'', PcNew 0, PcCreateOffer 0,
                  ConsoleError ''Error creating offer:'']\<rparr>"
proof -
  have h: "e_created rejecting = None \<or> \<not> e_setLocal rejecting" by (simp add: rejecting_def)
  have "createOffer alice ''room1'' rejecting joined =
       joined\<lparr>pc := Some 0, pcs := [fresh_pc ''room1''],
         trace := trace joined @ [ConsoleLog ''Creating offer...'', PcNew 0, PcCreateOffer 0,
                  ConsoleError ''Error creating offer:'']\<rparr>"
    using failed_offer [OF h, of alice "''room1''" joined]
    by (simp add: createOffer_def createPeerConnection_eq captured_tracks_def alice_def
      rejecting_def joined_eq close_current_def emit_def fresh_pc_def)
  with h show ?thesis by blast
qed

subsection \<open>C4: at most one live connection\<close>

text \<open>
  C4. Whatever events the page has processed since it was mounted, at most one of the
  connections it has constructed is open. The same holds at every point inside the
  handlers: after any number of the calls the page has made so far, in the order it made
  them, at most one connection is open, so each call of the constructor comes after the
  call that closes the connection before it.
\<close>

theorem single_live_handle:
  "length (live_handles (run evs initial)) \<le> 1
   \<and> length (open_after (take k (trace (run evs initial)))) \<le> 1"
proof -
  have "refs_inv (run evs initial)" by (simp add: refs_inv_run refs_inv_initial)
  then have l: "length (live_handles (run evs initial)) \<le> 1" by (rule refs_inv_live)
  have "trace_inv (run evs initial)" by (simp add: trace_inv_run trace_inv_initial)
  then have "bounded (trace (run evs initial))" by (simp add: trace_inv_def)
  then have "length (open_after (take k (trace (run evs initial)))) \<le> 1"
    unfolding bounded_def by blast
  with l show ?thesis by blast
qed

theorem single_live_handle_witness:
  "length (live_handles (run [SocketMessage alice (message ''peer_joined'' []) accepting,
       SocketMessage alice (message ''offer'' [(''sdp'', JStr ''v=1'')]) accepting] joined)) \<le> 1
   \<and> map pc_closed (pcs (run [SocketMessage alice (message ''peer_joined'' []) accepting,
       SocketMessage alice (message ''offer'' [(''sdp'', JStr ''v=1'')]) accepting] joined)) = [True, False]
   \<and> map (\<lambda>k. open_after (take k (trace (run [SocketMessage alice (message ''peer_joined'' []) accepting,
       SocketMessage alice (message ''offer'' [(''sdp'', JStr ''v=1'')]) accepting] joined))))
        [15, 16, 17] = [[0], [], [1]]"
  using single_live_handle [of "join_events @ [SocketMessage alice (message ''peer_joined'' []) accepting,
       SocketMessage alice (message ''offer'' [(''sdp'', JStr ''v=1'')]) accepting]" 17]
  unfolding run_append joined_def [symmetric] glare_eq
  by (simp add: joined_eq open_after_def)

subsection \<open>C5: hanging up twice\<close>




subsection \<open>C6: frames that cannot be decoded, frames of unknown kind\<close>

text \<open>
  C6. A frame that is not JSON is not dropped with a diagnostic: the message callback
  ends with the \<open>SyntaxError\<close> of \<open>JSON.parse\<close>.
\<close>

theorem undecodable_frame_counterexample:
  "ws_onmessage alice Malformed accepting joined = Inl SyntaxError"
  by (simp add: ws_onmessage_def)

text \<open>
  C6, as the code has it. On a frame that is not JSON the callback raises \<open>SyntaxError\<close>,
  on the JSON value \<open>null\<close> it raises \<open>TypeError\<close>, in both cases before it has logged,
  changed or sent anything, so the page goes on from the session it had. A decoded frame
  whose \<open>type\<close> is none of the six kinds of the switch is logged with \<open>console.log\<close>
  and otherwise ignored: no other change, no envelope.
\<close>

theorem frame_decoding:
  "ws_onmessage c Malformed e s = Inl SyntaxError
   \<and> ws_onmessage c (Parsed JNull) e s = Inl TypeError
   \<and> react (SocketMessage c Malformed e) s = s
   \<and> react (SocketMessage c (Parsed JNull) e) s = s
   \<and> (get_prop data ''type'' = Inr ty
        \<and> ty \<notin> {Some (JStr ''peer_joined''), Some (JStr ''offer''), Some (JStr ''answer''),
                 Some (JStr ''candidate''), Some (JStr ''peer_left''), Some (JStr ''error'')}
      \<longrightarrow> ws_onmessage c (Parsed data) e s =
            Inr (s\<lparr>trace := trace s @ [ConsoleLogValue ''Received message:'' ty]\<rparr>)
          \<and> sent (s\<lparr>trace := trace s @ [ConsoleLogValue ''Received message:'' ty]\<rparr>) = sent s)"
  by (simp add: ws_onmessage_def react_def emit_def sent_def)

theorem frame_decoding_witness:
  "ws_onmessage alice (Parsed (JObj [(''type'', JStr ''ping'')])) accepting joined =
     Inr (joined\<lparr>trace := trace joined @ [ConsoleLogValue ''Received message:'' (Some (JStr ''ping''))]\<rparr>)
   \<and> ws_onmessage alice (Parsed (JNum 5)) accepting joined =
     Inr (joined\<lparr>trace := trace joined @ [ConsoleLogValue ''Received message:'' None]\<rparr>)"
  using frame_decoding [of alice accepting joined "JObj [(''type'', JStr ''ping'')]" "Some (JStr ''ping'')"]
    frame_decoding [of alice accepting joined "JNum 5" None]
  by simp

subsection \<open>C7: who offers and who answers\<close>

text \<open>
  C7. A session that receives \<open>peer_joined\<close> does not always send an offer: when the
  engine rejects \<open>createOffer()\<close> it sends nothing and is not left offering. A session
  that receives an \<open>offer\<close> frame without a description does not answer: an offering
  session stays offering and sends nothing.
\<close>

theorem silent_roles_counterexample:
  "sent (react (SocketMessage alice (message ''peer_joined'' []) rejecting) joined) = sent joined
   \<and> \<not> offering (react (SocketMessage alice (message ''peer_joined'' []) rejecting) joined)
   \<and> offering in_call
   \<and> offering (react (SocketMessage alice (message ''offer'' []) accepting) in_call)
   \<and> sent (react (SocketMessage alice (message ''offer'' []) accepting) in_call) = sent in_call"
proof -
  have a: "react (SocketMessage alice (message ''peer_joined'' []) rejecting) joined =
      joined\<lparr>pc := Some 0, pcs := [fresh_pc ''room1''],
        trace := trace joined @
          [ConsoleLogValue ''Received message:'' (Some (JStr ''peer_joined'')),
           ConsoleLog ''Creating offer...'', PcNew 0, PcCreateOffer 0,
           ConsoleError ''Error creating offer:'']\<rparr>"
    by (simp add: joined_eq)
       (simp add: react_def ws_onmessage_def message_def alice_def rejecting_def createOffer_def
         createPeerConnection_eq captured_tracks_def close_current_def fresh_pc_def emit_def)
  have b: "react (SocketMessage alice (message ''offer'' []) accepting) in_call =
      in_call\<lparr>trace := trace in_call @
          [ConsoleLogValue ''Received message:'' (Some (JStr ''offer''))]\<rparr>"
    by (simp add: in_call_eq joined_eq)
       (simp add: react_def ws_onmessage_def message_def emit_def)
  have o: "offering in_call"
    by (simp add: in_call_eq joined_eq offering_def current_def)
  have o': "offering (in_call\<lparr>trace := trace in_call @
          [ConsoleLogValue ''Received message:'' (Some (JStr ''offer''))]\<rparr>)"
    by (simp add: in_call_eq joined_eq offering_def current_def)
  show ?thesis
    unfolding a b using o o'
    by (simp add: sent_def offering_def current_def fresh_pc_def)
qed

text \<open>
  C7, as the code has it. Take two sessions, each with its socket. The first receives a
  \<open>peer_joined\<close> frame, the second an \<open>offer\<close> frame that carries a description. Both
  callbacks return. The first session sends an \<open>offer\<close> envelope and nothing else,
  exactly one when the engine creates and applies the description and none when it does
  not, and it is never left answering; when the engine succeeds it is left offering. The
  second session sends an \<open>answer\<close> envelope and nothing else, exactly one when the
  engine succeeds and none when it does not, and it is never left offering; when the
  engine succeeds it is left answering. So the two never both initiate. An \<open>offer\<close>
  frame without a description is logged and otherwise ignored.
\<close>

theorem role_determinism:
  assumes "ws a \<noteq> None" and "ws b \<noteq> None"
    and "map_of fa ''type'' = Some (JStr ''peer_joined'')"
    and "map_of fb ''type'' = Some (JStr ''offer'')"
    and "opt_prop (map_of fb ''payload'') ''sdp'' = Some sdp" and "truthy (Some sdp)"
  shows "(\<exists>a' b'.
      ws_onmessage ca (Parsed (JObj fa)) ea a = Inr a'
    \<and> ws_onmessage cb (Parsed (JObj fb)) eb b = Inr b'
    \<and> sent a' = sent a @
         (case e_created ea of
            None \<Rightarrow> []
          | Some t \<Rightarrow>
              if e_setLocal ea
              then [JObj [(''type'', JStr ''offer''),
                          (''payload'', JObj [(''id'', JStr (c_roomId ca)),
                             (''sdp'', JObj [(''type'', JStr ''offer''), (''sdp'', JStr t)])])]]
              else [])
    \<and> sent b' = sent b @
         (if e_setRemote eb
          then case e_created eb of
                 None \<Rightarrow> []
               | Some t \<Rightarrow>
                   if e_setLocal eb
                   then [JObj [(''type'', JStr ''answer''),
                               (''payload'', JObj [(''id'', JStr (c_roomId cb)),
                                  (''sdp'', JObj [(''type'', JStr ''answer''), (''sdp'', JStr t)])])]]
                   else []
          else [])
    \<and> \<not> answering a' \<and> \<not> offering b'
    \<and> (e_created ea \<noteq> None \<and> e_setLocal ea \<longrightarrow> offering a')
    \<and> (e_setRemote eb \<and> e_created eb \<noteq> None \<and> e_setLocal eb \<longrightarrow> answering b'))
  \<and> (map_of fc ''type'' = Some (JStr ''offer'')
       \<and> \<not> truthy (opt_prop (map_of fc ''payload'') ''sdp'')
     \<longrightarrow> ws_onmessage cb (Parsed (JObj fc)) eb b =
           Inr (b\<lparr>trace := trace b @
                  [ConsoleLogValue ''Received message:'' (Some (JStr ''offer''))]\<rparr>))"
proof -
  let ?a1 = "emit (ConsoleLogValue ''Received message:'' (Some (JStr ''peer_joined''))) a"
  let ?b1 = "emit (ConsoleLogValue ''Received message:'' (Some (JStr ''offer''))) b"
  let ?a' = "createOffer ca (c_roomId ca) ea ?a1"
  let ?b' = "handleOffer cb sdp (c_roomId cb) eb ?b1"
  have ra: "ws_onmessage ca (Parsed (JObj fa)) ea a = Inr ?a'"
    using assms(3) by (simp add: ws_onmessage_def)
  have rb: "ws_onmessage cb (Parsed (JObj fb)) eb b = Inr ?b'"
    using assms(4,5,6) by (simp add: ws_onmessage_def)
  have wa: "ws ?a1 \<noteq> None" and wb: "ws ?b1 \<noteq> None" using assms(1,2) by simp_all
  have sa: "sent ?a' = sent a @
         (case e_created ea of
            None \<Rightarrow> []
          | Some t \<Rightarrow>
              if e_setLocal ea
              then [JObj [(''type'', JStr ''offer''),
                          (''payload'', JObj [(''id'', JStr (c_roomId ca)),
                             (''sdp'', JObj [(''type'', JStr ''offer''), (''sdp'', JStr t)])])]]
              else [])"
    using createOffer_sent [OF wa] by simp
  have sb: "sent ?b' = sent b @
         (if e_setRemote eb
          then case e_created eb of
                 None \<Rightarrow> []
               | Some t \<Rightarrow>
                   if e_setLocal eb
                   then [JObj [(''type'', JStr ''answer''),
                               (''payload'', JObj [(''id'', JStr (c_roomId cb)),
                                  (''sdp'', JObj [(''type'', JStr ''answer''), (''sdp'', JStr t)])])]]
                   else []
          else [])"
    using handleOffer_sent [OF wb] by simp
  have na: "\<not> answering ?a'"
    by (simp add: answering_def createOffer_current fresh_pc_def)
  have nb: "\<not> offering ?b'"
    by (simp add: offering_def handleOffer_current fresh_pc_def split: option.splits)
  have oa: "e_created ea \<noteq> None \<and> e_setLocal ea \<longrightarrow> offering ?a'"
    by (auto simp: offering_def createOffer_current fresh_pc_def)
  have ob: "e_setRemote eb \<and> e_created eb \<noteq> None \<and> e_setLocal eb \<longrightarrow> answering ?b'"
    by (auto simp: answering_def handleOffer_current fresh_pc_def)
  have ig: "map_of fc ''type'' = Some (JStr ''offer'')
       \<and> \<not> truthy (opt_prop (map_of fc ''payload'') ''sdp'')
     \<longrightarrow> ws_onmessage cb (Parsed (JObj fc)) eb b =
           Inr (b\<lparr>trace := trace b @
                  [ConsoleLogValue ''Received message:'' (Some (JStr ''offer''))]\<rparr>)"
    by (cases "opt_prop (map_of fc ''payload'') ''sdp''")
       (auto simp: ws_onmessage_def emit_def Let_def)
  from ra rb sa sb na nb oa ob ig show ?thesis by blast
qed

theorem role_determinism_witness:
  "ws joined \<noteq> None
   \<and> truthy (Some (JStr ''v=1''))
   \<and> ws_onmessage alice (message ''peer_joined'' []) accepting joined = Inr in_call
   \<and> sent in_call = sent joined @
        [JObj [(''type'', JStr ''offer''),
               (''payload'', JObj [(''id'', JStr ''room1''),
                  (''sdp'', JObj [(''type'', JStr ''offer''), (''sdp'', JStr ''v=0'')])])]]
   \<and> offering in_call \<and> \<not> answering in_call
   \<and> answering (react (SocketMessage alice (message ''offer'' [(''sdp'', JStr ''v=1'')]) accepting) joined)
   \<and> \<not> offering (react (SocketMessage alice (message ''offer'' [(''sdp'', JStr ''v=1'')]) accepting) joined)
   \<and> ws_onmessage alice (Parsed (JObj [(''type'', JStr ''offer'')])) accepting joined =
       Inr (joined\<lparr>trace := trace joined @
              [ConsoleLogValue ''Received message:'' (Some (JStr ''offer''))]\<rparr>)"
proof -
  have w: "ws joined \<noteq> None" by (simp add: joined_eq)
  have t: "truthy (Some (JStr ''v=1''))" by simp
  have ea: "ws_onmessage alice (message ''peer_joined'' []) accepting joined = Inr in_call"
    using w by (auto simp: in_call_def react_def ws_onmessage_def message_def)
  have eb: "ws_onmessage alice (message ''offer'' [(''sdp'', JStr ''v=1'')]) accepting joined
      = Inr (react (SocketMessage alice (message ''offer'' [(''sdp'', JStr ''v=1'')]) accepting) joined)"
    using w by (auto simp: react_def ws_onmessage_def message_def)
  note r = role_determinism [OF w w, of "[(''type'', JStr ''peer_joined''), (''payload'', JObj [])]"
      "[(''type'', JStr ''offer''), (''payload'', JObj [(''sdp'', JStr ''v=1'')])]" "JStr ''v=1''"
      alice accepting alice accepting "[(''type'', JStr ''offer'')]"]
  from r have ig: "ws_onmessage alice (Parsed (JObj [(''type'', JStr ''offer'')])) accepting joined =
       Inr (joined\<lparr>trace := trace joined @
              [ConsoleLogValue ''Received message:'' (Some (JStr ''offer''))]\<rparr>)"
    by simp
  from r obtain a' b' where
      "ws_onmessage alice (Parsed (JObj [(''type'', JStr ''peer_joined''), (''payload'', JObj [])])) accepting joined = Inr a'"
      "ws_onmessage alice (Parsed (JObj [(''type'', JStr ''offer''), (''payload'', JObj [(''sdp'', JStr ''v=1'')])])) accepting joined = Inr b'"
      "sent a' = sent joined @
        [JObj [(''type'', JStr ''offer''),
               (''payload'', JObj [(''id'', JStr ''room1''),
                  (''sdp'', JObj [(''type'', JStr ''offer''), (''sdp'', JStr ''v=0'')])])]]"
      "\<not> answering a'" "\<not> offering b'" "offering a'" "answering b'"
    by (auto simp: accepting_def alice_def)
  with ea eb have "sent in_call = sent joined @
        [JObj [(''type'', JStr ''offer''),
               (''payload'', JObj [(''id'', JStr ''room1''),
                  (''sdp'', JObj [(''type'', JStr ''offer''), (''sdp'', JStr ''v=0'')])])]]"
    "offering in_call" "\<not> answering in_call"
    "answering (react (SocketMessage alice (message ''offer'' [(''sdp'', JStr ''v=1'')]) accepting) joined)"
    "\<not> offering (react (SocketMessage alice (message ''offer'' [(''sdp'', JStr ''v=1'')]) accepting) joined)"
    by (simp_all add: message_def)
  with w t ea ig show ?thesis by blast
qed

subsection \<open>C8: joining without a room id\<close>

text \<open>
  C8. \<open>handleJoinRoom\<close> run by a closure whose \<open>roomId\<close> is empty tells the user with an
  alert and returns: the session is the one before but for that alert. No media is
  requested, no socket is constructed, nothing is sent, and \<open>inCall\<close> keeps its value.
\<close>

theorem join_empty_room:
  "c_roomId c = [] \<Longrightarrow>
     handleJoinRoom c media s = s\<lparr>trace := trace s @ [Alert (JStr ''Please enter a Room ID.'')]\<rparr>
     \<and> sent (handleJoinRoom c media s) = sent s
     \<and> inCall (handleJoinRoom c media s) = inCall s
     \<and> localStream (handleJoinRoom c media s) = localStream s
     \<and> ws (handleJoinRoom c media s) = ws s
     \<and> roomId (handleJoinRoom c media s) = roomId s"
  by (simp add: handleJoinRoom_def emit_def sent_def)

theorem join_empty_room_witness:
  "c_roomId (render initial) = []
   \<and> handleJoinRoom (render initial) (Some camera) initial =
       initial\<lparr>trace := [Alert (JStr ''Please enter a Room ID.'')]\<rparr>
   \<and> \<not> inCall (handleJoinRoom (render initial) (Some camera) initial)
   \<and> ws (handleJoinRoom (render initial) (Some camera) initial) = None"
  using join_empty_room [of "render initial" "Some camera" initial]
  by (simp add: render_def initial_def)

subsection \<open>C9: the order of a hang-up\<close>

text \<open>
  C9. The claimed order (room id, connection, local media, socket) is not the order of
  the code, and neither is the order tracks, connection, socket, room id: on the sample
  call the page stops the tracks, closes the socket, closes the connection and clears
  the room id last.
\<close>

theorem hangup_order_counterexample:
  "release_order (drop (length (trace in_call)) (trace (handleHangUp (render in_call) in_call)))
     = [LocalMediaHandle, SignalingChannel, PeerConnectionHandle, RoomId]
   \<and> release_order (drop (length (trace in_call)) (trace (handleHangUp (render in_call) in_call)))
     \<noteq> [RoomId, PeerConnectionHandle, LocalMediaHandle, SignalingChannel]
   \<and> release_order (drop (length (trace in_call)) (trace (handleHangUp (render in_call) in_call)))
     \<noteq> [LocalMediaHandle, PeerConnectionHandle, SignalingChannel, RoomId]"
  by (simp add: handleHangUp_eq render_def captured_tracks_def in_call_eq joined_eq camera_def
      release_order_def)

text \<open>
  C9, as the code has it. A hang-up stops the tracks of the local stream its closure
  captured, then closes the socket if there is one, then closes \<open>pc.current\<close> if there
  is one, then sets \<open>inCall\<close> to false, both streams to null and the room id to the empty
  string, in this order; afterwards the page is not in a call.
\<close>

theorem hangup_order:
  "trace (handleHangUp c s) =
     trace s @ map TrackStop (captured_tracks c)
       @ (case ws s of None \<Rightarrow> [] | Some w \<Rightarrow> [WsClose])
       @ (case pc s of None \<Rightarrow> [] | Some i \<Rightarrow> [PcClose i])
       @ [SetInCall False, SetLocalStream None, SetRemoteStream None, SetRoomId []]
   \<and> \<not> inCall (handleHangUp c s)
   \<and> localStream (handleHangUp c s) = None
   \<and> remoteStream (handleHangUp c s) = None
   \<and> roomId (handleHangUp c s) = []
   \<and> channel_closed (handleHangUp c s)
   \<and> set (captured_tracks c) \<subseteq> stopped (handleHangUp c s)"
  by (simp add: handleHangUp_eq channel_closed_def split: option.splits)

theorem hangup_order_witness:
  "trace (handleHangUp (render in_call) in_call) =
     trace in_call @ [TrackStop 0, TrackStop 1, WsClose, PcClose 0,
       SetInCall False, SetLocalStream None, SetRemoteStream None, SetRoomId []]
   \<and> stopped (handleHangUp (render in_call) in_call) = {0, 1}"
  using hangup_order [of "render in_call" in_call]
  by (simp add: render_def captured_tracks_def in_call_eq joined_eq camera_def handleHangUp_eq)

subsection \<open>C10: local candidates\<close>

text \<open>
  C10. The candidate callback of a connection does nothing at all when the candidate of
  the event is \<open>null\<close> (or any other value that is not true). In every state the page can
  reach, the callback of a constructed connection sends exactly one \<open>candidate\<close>
  envelope, with the room id the connection was created for and the candidate, when the
  candidate of the event is true, and sends nothing otherwise. A candidate object, which
  is what the engine delivers when it does not deliver \<open>null\<close>, is always sent.
\<close>

theorem candidate_emission:
  "(\<not> truthy cand \<longrightarrow> onicecandidate r cand s = s)
   \<and> (i < length (pcs (run evs initial)) \<longrightarrow>
        sent (react (CandidateFound i cand) (run evs initial)) =
        sent (run evs initial) @
          (case cand of
             None \<Rightarrow> []
           | Some cd \<Rightarrow>
               if truthy (Some cd)
               then [JObj [(''type'', JStr ''candidate''),
                           (''payload'',
                            JObj [(''id'', JStr (pc_currentRoomId (pcs (run evs initial) ! i))),
                                  (''candidate'', cd)])]]
               else []))
   \<and> (i < length (pcs (run evs initial)) \<longrightarrow>
        sent (react (CandidateFound i (Some (JObj fs))) (run evs initial)) =
        sent (run evs initial) @
          [JObj [(''type'', JStr ''candidate''),
                 (''payload'',
                  JObj [(''id'', JStr (pc_currentRoomId (pcs (run evs initial) ! i))),
                        (''candidate'', JObj fs)])]])"
proof -
  have w: "refs_inv (run evs initial)" by (simp add: refs_inv_run refs_inv_initial)
  have "ws (run evs initial) \<noteq> None" if "i < length (pcs (run evs initial))"
    using w that by (auto simp: refs_inv_def split: option.splits)
  then show ?thesis
    by (auto simp: react_def onicecandidate_def sendMessage_def sent_def envelope_def
        split: option.splits)
qed

theorem candidate_emission_witness:
  "onicecandidate ''room1'' None joined = joined
   \<and> onicecandidate ''room1'' (Some JNull) joined = joined
   \<and> sent (react (CandidateFound 0 (Some (JObj [(''candidate'', JStr ''host 1'')])))
             (run [SocketMessage alice (message ''peer_joined'' []) accepting] joined))
     = sent (run [SocketMessage alice (message ''peer_joined'' []) accepting] joined) @
       [JObj [(''type'', JStr ''candidate''),
              (''payload'', JObj [(''id'', JStr ''room1''),
                                  (''candidate'', JObj [(''candidate'', JStr ''host 1'')])])]]
   \<and> sent (react (CandidateFound 0 None)
             (run [SocketMessage alice (message ''peer_joined'' []) accepting] joined))
     = sent (run [SocketMessage alice (message ''peer_joined'' []) accepting] joined)"
  using
    candidate_emission [of None "''room1''" joined 0
      "join_events @ [SocketMessage alice (message ''peer_joined'' []) accepting]"
      "[(''candidate'', JStr ''host 1'')]"]
    candidate_emission [of "Some JNull" "''room1''" joined 0
      "join_events @ [SocketMessage alice (message ''peer_joined'' []) accepting]"
      "[(''candidate'', JStr ''host 1'')]"]
  unfolding run_append joined_def [symmetric] by (simp add: offering_eq)

end
